theory Spec2Isabelle
  imports Main
begin

section \<open>The USB monitor service (scripts/usb\_monitor.py)\<close>

text \<open>
  The service is effectful Python: it calls the operating system, starts external
  programs, sleeps, writes log records and keeps one piece of state of its own, the set
  \<open>self.mounted_devices\<close>. The embedding makes all of that explicit.

  \<^item> Every observable action is an \<open>effect\<close>, appended to a chronological trace.
  \<^item> What the outside world answers to a call (an exit code, a raised exception, whether
    a file exists) is given by an environment \<open>env\<close> of oracles. Each oracle sees the whole
    trace so far, so an answer may depend on everything that happened before.
  \<^item> A Python function is a computation \<open>'a io\<close>: it takes the state and gives an outcome
    (a returned value, a raised exception, or \<open>Blocked\<close> for a loop that never ends)
    and the new state. \<open>try_except\<close> and \<open>try_finally\<close> follow Python's statements.

  The calls that may raise are those to pyudev objects at start-up, \<open>os.makedirs\<close>,
  \<open>os.rmdir\<close>, \<open>subprocess.run\<close>, \<open>subprocess.Popen\<close>, \<open>Thread.start\<close>, the
  resolution of a device's parent, and a call with the wrong number of arguments.
  Logging, \<open>time.sleep\<close>, \<open>os.path.exists\<close>, \<open>observer.stop\<close>, property lookup
  with a default, and set operations return normally.
  The oracles raise subclasses of \<open>Exception\<close> only; \<open>KeyboardInterrupt\<close> reaches the
  main thread while it sleeps in its keep-alive loop.
\<close>

subsection \<open>Exceptions, effects and the environment\<close>

datatype exception =
    OSError string
  | TimeoutExpired string
  | RuntimeError string
  | TypeError string
  | AttributeError string

fun str :: "exception \<Rightarrow> string" where
  "str (OSError m) = m"
| "str (TimeoutExpired m) = m"
| "str (RuntimeError m) = m"
| "str (TypeError m) = m"
| "str (AttributeError m) = m"

datatype raised = Exception exception | KeyboardInterrupt | SystemExit nat

datatype level = INFO | WARNING | ERROR

datatype pyudev_call =
    Context
  | Monitor_from_netlink
  | Monitor_filter_by string string
  | MonitorObserver
  | Observer_start
  | Observer_stop

datatype effect =
    Log level string
  | Sleep nat
  | Makedirs string
  | Run "string list" "nat option"
  | Rmdir string
  | Exists string
  | Popen "string list" string
  | Thread_start_launch_chromium string
  | Pyudev pyudev_call

record completed_process =
  returncode :: int
  stderr :: string

text \<open>
  \<open>Run cmd timeout\<close> is \<open>subprocess.run(cmd, capture_output=True, ...)\<close> with the
  \<open>timeout\<close> argument when there is one; \<open>Makedirs p\<close> is
  \<open>os.makedirs(p, exist_ok=True)\<close>; \<open>Popen cmd display\<close> is \<open>subprocess.Popen\<close> with
  the environment's \<open>DISPLAY\<close> set; \<open>Thread_start_launch_chromium p\<close> is
  \<open>threading.Thread(target=self.launch_chromium, args=(p,), daemon=True).start()\<close>.
  An effect is recorded when the call is made, whether it then returns or raises.
\<close>

record env =
  os_makedirs_result :: "effect list \<Rightarrow> string \<Rightarrow> exception option"
  os_rmdir_result :: "effect list \<Rightarrow> string \<Rightarrow> exception option"
  os_path_exists_result :: "effect list \<Rightarrow> string \<Rightarrow> bool"
  subprocess_run_result :: "effect list \<Rightarrow> string list \<Rightarrow> nat option \<Rightarrow> exception + completed_process"
  subprocess_Popen_result :: "effect list \<Rightarrow> string list \<Rightarrow> exception + nat"
  thread_start_result :: "effect list \<Rightarrow> string \<Rightarrow> exception option"
  pyudev_result :: "effect list \<Rightarrow> pyudev_call \<Rightarrow> exception option"

record state =
  mounted_devices :: "string list"
  trace :: "effect list"

text \<open>
  \<open>mounted_devices\<close> is the Python set of device node paths, kept as a list without
  duplicates; \<open>set.add\<close> is \<open>List.insert\<close>, \<open>set.discard\<close> is \<open>removeAll\<close>, and
  \<open>list(self.mounted_devices)\<close> enumerates it in the list's order.
\<close>

subsection \<open>Computations\<close>

datatype 'a outcome = Returned 'a | Raised raised | Blocked

type_synonym 'a io = "state \<Rightarrow> 'a outcome \<times> state"

definition return :: "'a \<Rightarrow> 'a io" where
  "return x = (\<lambda>s. (Returned x, s))"

definition raise :: "raised \<Rightarrow> 'a io" where
  "raise r = (\<lambda>s. (Raised r, s))"

definition blocked :: "'a io" where
  "blocked = (\<lambda>s. (Blocked, s))"

definition bind :: "'a io \<Rightarrow> ('a \<Rightarrow> 'b io) \<Rightarrow> 'b io" where
  "bind m f = (\<lambda>s. case m s of
      (Returned x, s') \<Rightarrow> f x s'
    | (Raised r, s') \<Rightarrow> (Raised r, s')
    | (Blocked, s') \<Rightarrow> (Blocked, s'))"

text \<open>
  \<open>try: m except ...\<close>: the handler selector gives the body of the first matching
  \<open>except\<close> clause, or \<open>None\<close> when no clause matches and the exception goes on.
\<close>

definition try_except :: "'a io \<Rightarrow> (raised \<Rightarrow> 'a io option) \<Rightarrow> 'a io" where
  "try_except m handlers = (\<lambda>s. case m s of
      (Raised r, s') \<Rightarrow> (case handlers r of Some h \<Rightarrow> h s' | None \<Rightarrow> (Raised r, s'))
    | (Returned x, s') \<Rightarrow> (Returned x, s')
    | (Blocked, s') \<Rightarrow> (Blocked, s'))"

definition except_Exception :: "(exception \<Rightarrow> 'a io) \<Rightarrow> raised \<Rightarrow> 'a io option" where
  "except_Exception h r = (case r of Exception e \<Rightarrow> Some (h e) | _ \<Rightarrow> None)"

definition except_OSError :: "'a io \<Rightarrow> raised \<Rightarrow> 'a io option" where
  "except_OSError h r = (case r of Exception (OSError m) \<Rightarrow> Some h | _ \<Rightarrow> None)"

text \<open>
  \<open>try: m finally: fin\<close>: \<open>fin\<close> runs after \<open>m\<close> returned or raised; what \<open>fin\<close>
  raises replaces the outcome of \<open>m\<close>. A body that never ends never reaches \<open>fin\<close>.
\<close>

definition try_finally :: "'a io \<Rightarrow> unit io \<Rightarrow> 'a io" where
  "try_finally m fin = (\<lambda>s. case m s of
      (Blocked, s') \<Rightarrow> (Blocked, s')
    | (out, s') \<Rightarrow> (case fin s' of
          (Returned _, s'') \<Rightarrow> (out, s'')
        | (Raised r, s'') \<Rightarrow> (Raised r, s'')
        | (Blocked, s'') \<Rightarrow> (Blocked, s'')))"

definition emit :: "effect \<Rightarrow> unit io" where
  "emit e = (\<lambda>s. (Returned (), s\<lparr>trace := trace s @ [e]\<rparr>))"

definition call_raising :: "(effect list \<Rightarrow> exception option) \<Rightarrow> effect \<Rightarrow> unit io" where
  "call_raising oracle e = (\<lambda>s.
     (case oracle (trace s) of None \<Rightarrow> Returned () | Some x \<Rightarrow> Raised (Exception x),
      s\<lparr>trace := trace s @ [e]\<rparr>))"

definition call_result :: "(effect list \<Rightarrow> exception + 'a) \<Rightarrow> effect \<Rightarrow> 'a io" where
  "call_result oracle e = (\<lambda>s.
     (case oracle (trace s) of Inr v \<Rightarrow> Returned v | Inl x \<Rightarrow> Raised (Exception x),
      s\<lparr>trace := trace s @ [e]\<rparr>))"

definition logger_info :: "string \<Rightarrow> unit io" where
  "logger_info msg = emit (Log INFO msg)"

definition logger_warning :: "string \<Rightarrow> unit io" where
  "logger_warning msg = emit (Log WARNING msg)"

definition logger_error :: "string \<Rightarrow> unit io" where
  "logger_error msg = emit (Log ERROR msg)"

definition time_sleep :: "nat \<Rightarrow> unit io" where
  "time_sleep n = emit (Sleep n)"

definition os_makedirs :: "env \<Rightarrow> string \<Rightarrow> unit io" where
  "os_makedirs ev p = call_raising (\<lambda>h. os_makedirs_result ev h p) (Makedirs p)"

definition os_rmdir :: "env \<Rightarrow> string \<Rightarrow> unit io" where
  "os_rmdir ev p = call_raising (\<lambda>h. os_rmdir_result ev h p) (Rmdir p)"

definition os_path_exists :: "env \<Rightarrow> string \<Rightarrow> bool io" where
  "os_path_exists ev p = (\<lambda>s. (Returned (os_path_exists_result ev (trace s) p),
     s\<lparr>trace := trace s @ [Exists p]\<rparr>))"

definition subprocess_run :: "env \<Rightarrow> string list \<Rightarrow> nat option \<Rightarrow> completed_process io" where
  "subprocess_run ev cmd timeout =
     call_result (\<lambda>h. subprocess_run_result ev h cmd timeout) (Run cmd timeout)"

definition subprocess_Popen :: "env \<Rightarrow> string list \<Rightarrow> string \<Rightarrow> nat io" where
  "subprocess_Popen ev cmd display =
     call_result (\<lambda>h. subprocess_Popen_result ev h cmd) (Popen cmd display)"

definition threading_Thread_start :: "env \<Rightarrow> string \<Rightarrow> unit io" where
  "threading_Thread_start ev p =
     call_raising (\<lambda>h. thread_start_result ev h p) (Thread_start_launch_chromium p)"

definition pyudev :: "env \<Rightarrow> pyudev_call \<Rightarrow> unit io" where
  "pyudev ev c = call_raising (\<lambda>h. pyudev_result ev h c) (Pyudev c)"

subsection \<open>Configuration and path helpers\<close>

definition MOUNT_BASE :: string where
  "MOUNT_BASE = ''/mnt/casette''"

definition DISPLAY :: string where
  "DISPLAY = '':0''"

text \<open>
  \<open>os.path.join(a, b)\<close> of the POSIX path module, for two arguments: an absolute \<open>b\<close>
  replaces \<open>a\<close>; otherwise one separator stands between them.
\<close>

definition os_path_join :: "string \<Rightarrow> string \<Rightarrow> string" where
  "os_path_join a b =
     (if b \<noteq> [] \<and> hd b = CHR ''/'' then b
      else if a = [] \<or> last a = CHR ''/'' then a @ b
      else a @ ''/'' @ b)"

text \<open>\<open>s.split(sep)\<close> for a one-character separator: never empty.\<close>

fun split :: "char \<Rightarrow> string \<Rightarrow> string list" where
  "split sep [] = [[]]"
| "split sep (c # cs) =
     (if c = sep then [] # split sep cs
      else (c # hd (split sep cs)) # tl (split sep cs))"


subsection \<open>Devices\<close>

text \<open>
  A pyudev device as the service reads it: its action, its subsystem, its properties
  and its parent, whose resolution gives no parent, a device, or raises. A pyudev
  device is a mapping of its properties, so as a condition it is true exactly when it
  has at least one property.
\<close>

datatype device =
  Device (action: "string option") (subsystem: "string option")
         (properties: "(string \<times> string) list") (parent: parent)
and parent = NoParent | Parent device | ParentRaises exception

definition device_get :: "device \<Rightarrow> string \<Rightarrow> string \<Rightarrow> string" where
  "device_get d key dflt = (case map_of (properties d) key of None \<Rightarrow> dflt | Some v \<Rightarrow> v)"

record device_info =
  name :: string
  label :: string
  uuid :: string
  filesystem :: string

subsection \<open>USBMonitor.is\_usb\_device\<close>

text \<open>
  The \<open>while current:\<close> loop inside the \<open>try\<close>, from \<open>current\<close> onwards.
  The loop ends with \<open>False\<close> when \<open>current\<close> is \<open>None\<close> (no parent left) or
  a device without properties; it returns \<open>True\<close> at the first device of the USB
  subsystem and goes on with the parent otherwise. An exception from resolving the
  parent leaves the loop; \<open>is_usb_device\<close> catches it.
\<close>

fun walk :: "device \<Rightarrow> exception + bool"
and walk_parent :: "parent \<Rightarrow> exception + bool" where
  "walk (Device a sub props par) =
     (if props = [] then Inr False
      else if sub = Some ''usb'' then Inr True
      else walk_parent par)"
| "walk_parent NoParent = Inr False"
| "walk_parent (Parent p) = walk p"
| "walk_parent (ParentRaises e) = Inl e"

definition is_usb_device :: "device \<Rightarrow> bool" where
  "is_usb_device d = (case walk d of Inr b \<Rightarrow> b | Inl e \<Rightarrow> False)"

text \<open>The device and its ancestors, as far as the parent chain resolves.\<close>

fun chain :: "device \<Rightarrow> device list"
and chain_parent :: "parent \<Rightarrow> device list" where
  "chain (Device a sub props par) = Device a sub props par # chain_parent par"
| "chain_parent NoParent = []"
| "chain_parent (Parent p) = chain p"
| "chain_parent (ParentRaises e) = []"

subsection \<open>USBMonitor.get\_device\_info\<close>

definition get_device_info :: "device \<Rightarrow> device_info" where
  "get_device_info d =
     (let device_name = device_get d ''DEVNAME'' '''';
          device_label = device_get d ''ID_FS_LABEL'' '''';
          device_uuid = device_get d ''ID_FS_UUID'' ''''
      in \<lparr> name = device_name,
           label = (if device_label \<noteq> [] then device_label
                    else ''usb_'' @ last (split CHR ''/'' device_name)),
           uuid = device_uuid,
           filesystem = device_get d ''ID_FS_TYPE'' ''unknown'' \<rparr>)"

text \<open>
  The \<open>repr\<close> of the information dictionary inside a log message; the quoting of
  unusual characters is not modelled.
\<close>

definition repr_device_info :: "device_info \<Rightarrow> string" where
  "repr_device_info i =
     ''{'' @ [CHR 0x27] @ ''name'' @ [CHR 0x27] @ '': '' @ [CHR 0x27] @ name i @ [CHR 0x27] @
     '', '' @ [CHR 0x27] @ ''label'' @ [CHR 0x27] @ '': '' @ [CHR 0x27] @ label i @ [CHR 0x27] @
     '', '' @ [CHR 0x27] @ ''uuid'' @ [CHR 0x27] @ '': '' @ [CHR 0x27] @ uuid i @ [CHR 0x27] @
     '', '' @ [CHR 0x27] @ ''filesystem'' @ [CHR 0x27] @ '': '' @ [CHR 0x27] @ filesystem i @
     [CHR 0x27] @ ''}''"

subsection \<open>USBMonitor.mount\_device\<close>

definition mount_device :: "env \<Rightarrow> device_info \<Rightarrow> string option io" where
  "mount_device ev info =
     (let device_name = name info;
          mount_point = os_path_join MOUNT_BASE (label info)
      in try_except
           (bind (os_makedirs ev mount_point) (\<lambda>_.
            bind (subprocess_run ev [''sudo'', ''mount'', device_name, mount_point] None)
              (\<lambda>result.
            if returncode result = 0
            then bind (logger_info (''Successfully mounted '' @ device_name @ '' to '' @ mount_point))
                   (\<lambda>_. return (Some mount_point))
            else bind (logger_error (''Failed to mount '' @ device_name @ '': '' @ stderr result))
                   (\<lambda>_. return None))))
           (except_Exception (\<lambda>e.
            bind (logger_error (''Error mounting device '' @ device_name @ '': '' @ str e))
              (\<lambda>_. return None))))"

subsection \<open>USBMonitor.kill\_chromium\<close>

definition kill_chromium :: "env \<Rightarrow> unit io" where
  "kill_chromium ev =
     try_except
       (bind (subprocess_run ev [''pkill'', ''-f'', ''chromium''] None) (\<lambda>_.
        logger_info ''Killed existing Chromium processes''))
       (except_Exception (\<lambda>e.
        logger_warning (''Could not kill Chromium processes: '' @ str e)))"

subsection \<open>USBMonitor.unmount\_device\<close>

definition unmount_device :: "env \<Rightarrow> device_info \<Rightarrow> unit io" where
  "unmount_device ev info =
     (let mount_point = os_path_join MOUNT_BASE (label info)
      in try_except
           (bind (kill_chromium ev) (\<lambda>_.
            bind (time_sleep 2) (\<lambda>_.
            bind (subprocess_run ev [''sudo'', ''umount'', mount_point] None) (\<lambda>result.
            if returncode result = 0
            then bind (logger_info (''Successfully unmounted '' @ mount_point)) (\<lambda>_.
                 try_except (os_rmdir ev mount_point)
                   (except_OSError
                      (logger_warning (''Could not remove mount point directory '' @ mount_point))))
            else logger_error (''Failed to unmount '' @ mount_point @ '': '' @ stderr result)))))
           (except_Exception (\<lambda>e.
            logger_error (''Error unmounting device: '' @ str e))))"

subsection \<open>USBMonitor.launch\_chromium\<close>

definition launch_chromium :: "env \<Rightarrow> string \<Rightarrow> nat option io" where
  "launch_chromium ev html_path =
     try_except
       (bind (kill_chromium ev) (\<lambda>_.
        bind (time_sleep 1) (\<lambda>_.
        bind (subprocess_run ev [''which'', ''chromium''] None) (\<lambda>which.
        let chromium_cmd = (if returncode which = 0 then ''chromium'' else ''chromium-browser'');
            cmd = [chromium_cmd, ''--kiosk'', ''--no-sandbox'', ''--disable-web-security'',
                   ''--disable-features=TranslateUI'', ''--disable-ipc-flooding-protection'',
                   ''--start-fullscreen'', ''file://'' @ html_path]
        in bind (subprocess_Popen ev cmd DISPLAY) (\<lambda>process.
           bind (logger_info (''Launched Chromium in kiosk mode with '' @ html_path)) (\<lambda>_.
           return (Some process)))))))
       (except_Exception (\<lambda>e.
        bind (logger_error (''Error launching Chromium: '' @ str e)) (\<lambda>_. return None)))"

subsection \<open>USBMonitor.handle\_device\_add\<close>

definition mounted_devices_add :: "string \<Rightarrow> unit io" where
  "mounted_devices_add n =
     (\<lambda>s. (Returned (), s\<lparr>mounted_devices := List.insert n (mounted_devices s)\<rparr>))"

definition mounted_devices_discard :: "string \<Rightarrow> unit io" where
  "mounted_devices_discard n =
     (\<lambda>s. (Returned (), s\<lparr>mounted_devices := removeAll n (mounted_devices s)\<rparr>))"

definition mounted_devices_contains :: "string \<Rightarrow> bool io" where
  "mounted_devices_contains n = (\<lambda>s. (Returned (n \<in> set (mounted_devices s)), s))"

definition mounted_devices_list :: "string list io" where
  "mounted_devices_list = (\<lambda>s. (Returned (mounted_devices s), s))"

definition mounted_devices_clear :: "unit io" where
  "mounted_devices_clear = (\<lambda>s. (Returned (), s\<lparr>mounted_devices := []\<rparr>))"

text \<open>
  The thread that runs \<open>launch_chromium\<close> is started and not joined: the handler
  starts it with the thread's argument and goes on; the thread's own work is
  \<open>launch_chromium ev index_path\<close>, which the handler does not run. Starting the
  thread is outside every \<open>try\<close>: what it raises leaves the handler.
\<close>

definition handle_device_add :: "env \<Rightarrow> device \<Rightarrow> unit io" where
  "handle_device_add ev d =
     (if \<not> is_usb_device d then return ()
      else
        let info = get_device_info d
        in bind (logger_info (''USB device inserted: '' @ repr_device_info info)) (\<lambda>_.
           bind (time_sleep 2) (\<lambda>_.
           bind (mount_device ev info) (\<lambda>mount_point.
           case mount_point of
             None \<Rightarrow> return ()
           | Some mp \<Rightarrow>
               if mp = [] then return ()
               else
                 bind (mounted_devices_add (name info)) (\<lambda>_.
                 let index_path = os_path_join mp ''index.html''
                 in bind (os_path_exists ev index_path) (\<lambda>found.
                    if found
                    then bind (logger_info (''Found index.html at '' @ index_path)) (\<lambda>_.
                         threading_Thread_start ev index_path)
                    else logger_info (''No index.html found in '' @ mp)))))))"

subsection \<open>USBMonitor.handle\_device\_remove\<close>

definition handle_device_remove :: "env \<Rightarrow> device \<Rightarrow> unit io" where
  "handle_device_remove ev d =
     (if \<not> is_usb_device d then return ()
      else
        let info = get_device_info d;
            device_name = name info
        in bind (mounted_devices_contains device_name) (\<lambda>tracked.
           if tracked
           then bind (logger_info (''USB device removed: '' @ repr_device_info info)) (\<lambda>_.
                bind (unmount_device ev info) (\<lambda>_.
                mounted_devices_discard device_name))
           else return ()))"

subsection \<open>USBMonitor.handle\_udev\_event\<close>

definition handle_udev_event :: "env \<Rightarrow> device \<Rightarrow> unit io" where
  "handle_udev_event ev d =
     (if action d = Some ''add'' then handle_device_add ev d
      else if action d = Some ''remove'' then handle_device_remove ev d
      else return ())"

subsection \<open>USBMonitor.cleanup\<close>

fun cleanup_loop :: "env \<Rightarrow> string list \<Rightarrow> unit io" where
  "cleanup_loop ev [] = return ()"
| "cleanup_loop ev (device_name # rest) =
     bind (try_except
             (bind (subprocess_run ev [''sudo'', ''umount'', device_name] (Some 10))
                (\<lambda>_. return ()))
             (except_Exception (\<lambda>e. return ())))
       (\<lambda>_. cleanup_loop ev rest)"

definition cleanup :: "env \<Rightarrow> unit io" where
  "cleanup ev =
     bind (logger_info ''Cleaning up mounted devices...'') (\<lambda>_.
     bind mounted_devices_list (\<lambda>devices.
     cleanup_loop ev devices))"

subsection \<open>The observer thread\<close>

text \<open>
  \<open>pyudev.MonitorObserver(self.monitor, self.handle_udev_event)\<close> passes the handler
  as the observer's second positional parameter, \<open>event_handler\<close>. For each event the
  observer, in a thread of its own, calls \<open>event_handler(device.action, device)\<close>.
  \<open>call_handle_udev_event\<close> is the call of the bound method
  \<open>handle_udev_event(self, device)\<close> with a list of positional arguments: it takes
  exactly one, whose \<open>action\<close> attribute it reads.
\<close>

datatype argument = Action_arg "string option" | Device_arg device

definition call_handle_udev_event :: "env \<Rightarrow> argument list \<Rightarrow> unit io" where
  "call_handle_udev_event ev args =
     (case args of
        [Device_arg d] \<Rightarrow> handle_udev_event ev d
      | [Action_arg a] \<Rightarrow>
          raise (Exception (AttributeError ''object has no attribute action''))
      | _ \<Rightarrow>
          raise (Exception (TypeError
            ''handle_udev_event() takes 2 positional arguments but 3 were given'')))"

text \<open>
  The observer's loop over the events, in order. An exception that leaves the call of
  the handler ends the loop, and with it the observer thread, but only that thread:
  \<open>observer_thread\<close> gives the main thread a normal return whatever the loop did.
\<close>

fun dispatch :: "env \<Rightarrow> device list \<Rightarrow> unit io" where
  "dispatch ev [] = return ()"
| "dispatch ev (d # ds) =
     bind (call_handle_udev_event ev [Action_arg (action d), Device_arg d])
       (\<lambda>_. dispatch ev ds)"

definition observer_thread :: "unit io \<Rightarrow> unit io" where
  "observer_thread m = (\<lambda>s. (Returned (), snd (m s)))"

subsection \<open>USBMonitor.\_\_init\_\_, USBMonitor.start\_monitoring and main\<close>

definition USBMonitor_init :: "env \<Rightarrow> unit io" where
  "USBMonitor_init ev =
     bind (pyudev ev Context) (\<lambda>_.
     bind (pyudev ev Monitor_from_netlink) (\<lambda>_.
     bind (pyudev ev (Monitor_filter_by ''block'' ''partition'')) (\<lambda>_.
     bind mounted_devices_clear (\<lambda>_.
     os_makedirs ev MOUNT_BASE))))"

text \<open>
  \<open>while True: time.sleep(1)\<close> in the main thread. The loop ends only when the
  interrupt arrives: after \<open>n\<close> sleeps for \<open>Some n\<close>, never for \<open>None\<close>.
\<close>

fun sleep_until_interrupt :: "nat \<Rightarrow> unit io" where
  "sleep_until_interrupt 0 = raise KeyboardInterrupt"
| "sleep_until_interrupt (Suc n) = bind (time_sleep 1) (\<lambda>_. sleep_until_interrupt n)"

definition keep_alive :: "nat option \<Rightarrow> unit io" where
  "keep_alive interrupt =
     (case interrupt of None \<Rightarrow> blocked | Some n \<Rightarrow> sleep_until_interrupt n)"

text \<open>
  \<open>events\<close> are the hotplug events the observer receives during the run, placed
  here before the main thread's sleeps; \<open>interrupt\<close> says when the stop signal comes.
\<close>

definition start_monitoring :: "env \<Rightarrow> device list \<Rightarrow> nat option \<Rightarrow> unit io" where
  "start_monitoring ev events interrupt =
     bind (logger_info ''Starting USB device monitoring...'') (\<lambda>_.
     try_finally
       (try_except
          (bind (pyudev ev MonitorObserver) (\<lambda>_.
           bind (pyudev ev Observer_start) (\<lambda>_.
           bind (logger_info ''USB monitor started successfully. Press Ctrl+C to stop.'') (\<lambda>_.
           bind (observer_thread (dispatch ev events)) (\<lambda>_.
           keep_alive interrupt)))))
          (\<lambda>r. case r of
             KeyboardInterrupt \<Rightarrow>
               Some (bind (logger_info ''Received interrupt signal, stopping monitor...'') (\<lambda>_.
                     emit (Pyudev Observer_stop)))
           | Exception e \<Rightarrow> Some (logger_error (''Error in USB monitor: '' @ str e))
           | _ \<Rightarrow> None))
       (cleanup ev))"

definition main :: "env \<Rightarrow> device list \<Rightarrow> nat option \<Rightarrow> unit io" where
  "main ev events interrupt =
     bind (logger_info ''Starting Casette USB Monitor Service'') (\<lambda>_.
     try_except
       (bind (USBMonitor_init ev) (\<lambda>_. start_monitoring ev events interrupt))
       (except_Exception (\<lambda>e.
        bind (logger_error (''Fatal error: '' @ str e)) (\<lambda>_. raise (SystemExit 1)))))"

text \<open>The exit status of the process, when it ends.\<close>

fun exit_status :: "unit outcome \<Rightarrow> nat option" where
  "exit_status (Returned u) = Some 0"
| "exit_status (Raised (SystemExit n)) = Some n"
| "exit_status (Raised KeyboardInterrupt) = Some 130"
| "exit_status (Raised (Exception e)) = Some 1"
| "exit_status Blocked = None"

subsection \<open>Vocabulary of the properties\<close>

text \<open>The calls of the external unmount utility among some effects.\<close>

fun is_umount_call :: "effect \<Rightarrow> bool" where
  "is_umount_call (Run cmd timeout) = (take 2 cmd = [''sudo'', ''umount''])"
| "is_umount_call e = False"

definition umount_calls :: "effect list \<Rightarrow> nat" where
  "umount_calls es = length (filter is_umount_call es)"

fun is_viewer_start :: "effect \<Rightarrow> bool" where
  "is_viewer_start (Thread_start_launch_chromium p) = True"
| "is_viewer_start (Popen cmd display) = True"
| "is_viewer_start e = False"

fun is_log :: "effect \<Rightarrow> bool" where
  "is_log (Log l m) = True"
| "is_log e = False"

text \<open>
  The viewer's command line in \<open>launch_chromium\<close>: the executable chosen from the
  result of \<open>which chromium\<close>, the kiosk flags, and the page.
\<close>

definition chromium_cmd :: "completed_process \<Rightarrow> string" where
  "chromium_cmd which = (if returncode which = 0 then ''chromium'' else ''chromium-browser'')"

definition kiosk_cmd :: "string \<Rightarrow> string \<Rightarrow> string list" where
  "kiosk_cmd executable html_path =
     [executable, ''--kiosk'', ''--no-sandbox'', ''--disable-web-security'',
      ''--disable-features=TranslateUI'', ''--disable-ipc-flooding-protection'',
      ''--start-fullscreen'', ''file://'' @ html_path]"

text \<open>The effects a computation added to the trace.\<close>

definition new_effects :: "state \<Rightarrow> state \<Rightarrow> effect list" where
  "new_effects s s' = drop (length (trace s)) (trace s')"


subsection \<open>Example environments and devices\<close>

definition completed :: "int \<Rightarrow> string \<Rightarrow> completed_process" where
  "completed rc err = \<lparr> returncode = rc, stderr = err \<rparr>"

text \<open>Every external call succeeds and the marker file is there.\<close>

definition env_ok :: env where
  "env_ok = \<lparr> os_makedirs_result = (\<lambda>h p. None),
              os_rmdir_result = (\<lambda>h p. None),
              os_path_exists_result = (\<lambda>h p. True),
              subprocess_run_result = (\<lambda>h cmd timeout. Inr (completed 0 [])),
              subprocess_Popen_result = (\<lambda>h cmd. Inr 4242),
              thread_start_result = (\<lambda>h p. None),
              pyudev_result = (\<lambda>h c. None) \<rparr>"

text \<open>The mount and unmount utilities exit with status 32; nothing raises.\<close>

definition env_busy :: env where
  "env_busy = env_ok \<lparr> subprocess_run_result :=
     (\<lambda>h cmd timeout. if take 1 cmd = [''sudo'']
                       then Inr (completed 32 ''target is busy'')
                       else Inr (completed 0 [])) \<rparr>"

text \<open>The mount and unmount utilities exit with status 32 and another diagnostic.\<close>

definition env_wrong_fs :: env where
  "env_wrong_fs = env_ok \<lparr> subprocess_run_result :=
     (\<lambda>h cmd timeout. if take 1 cmd = [''sudo'']
                       then Inr (completed 32 ''wrong fs type'')
                       else Inr (completed 0 [])) \<rparr>"

text \<open>Everything succeeds, and there is no marker file.\<close>

definition env_no_marker :: env where
  "env_no_marker = env_ok \<lparr> os_path_exists_result := (\<lambda>h p. False) \<rparr>"

text \<open>
  The hotplug subscription can be set up, but the mount base directory cannot be
  created.
\<close>

definition env_no_mount_base :: env where
  "env_no_mount_base = env_ok \<lparr> os_makedirs_result :=
     (\<lambda>h p. Some (OSError ''Permission denied'')) \<rparr>"

text \<open>The netlink monitor cannot be opened.\<close>

definition env_no_netlink :: env where
  "env_no_netlink = env_ok \<lparr> pyudev_result :=
     (\<lambda>h c. if c = Monitor_from_netlink then Some (OSError ''Could not create monitor'')
             else None) \<rparr>"

text \<open>Everything succeeds, except that the program \<open>which\<close> cannot be run.\<close>

definition env_no_which :: env where
  "env_no_which = env_ok \<lparr> subprocess_run_result :=
     (\<lambda>h cmd timeout. if cmd = [''which'', ''chromium'']
                       then Inl (OSError ''No such file or directory'')
                       else Inr (completed 0 [])) \<rparr>"

text \<open>Everything succeeds, except that no new thread can be started.\<close>

definition env_no_thread :: env where
  "env_no_thread = env_ok \<lparr> thread_start_result :=
     (\<lambda>h p. Some (RuntimeError ''cannot start new thread'')) \<rparr>"

text \<open>Every call that can raise does.\<close>

definition env_raising :: env where
  "env_raising = \<lparr> os_makedirs_result = (\<lambda>h p. Some (OSError ''Permission denied'')),
                   os_rmdir_result = (\<lambda>h p. Some (OSError ''Directory not empty'')),
                   os_path_exists_result = (\<lambda>h p. False),
                   subprocess_run_result = (\<lambda>h cmd timeout. Inl (TimeoutExpired ''timed out'')),
                   subprocess_Popen_result = (\<lambda>h cmd. Inl (OSError ''No such file'')),
                   thread_start_result = (\<lambda>h p. Some (RuntimeError ''cannot start new thread'')),
                   pyudev_result = (\<lambda>h c. Some (OSError ''netlink'')) \<rparr>"

definition usb_host :: device where
  "usb_host = Device None (Some ''usb'') [(''DEVTYPE'', ''usb_device'')] NoParent"

definition usb_partition :: "string \<Rightarrow> (string \<times> string) list \<Rightarrow> device" where
  "usb_partition act props =
     Device (Some act) (Some ''block'') props
       (Parent (Device None (Some ''scsi'') [(''DEVTYPE'', ''scsi_device'')] (Parent usb_host)))"

definition sdb1 :: "string \<Rightarrow> device" where
  "sdb1 act = usb_partition act [(''DEVNAME'', ''/dev/sdb1'')]"

definition labelled :: "string \<Rightarrow> device" where
  "labelled act =
     usb_partition act [(''DEVNAME'', ''/dev/sdc1''), (''ID_FS_LABEL'', ''TAPES'')]"

text \<open>Another partition that carries the same filesystem label.\<close>

definition labelled_twin :: "string \<Rightarrow> device" where
  "labelled_twin act =
     usb_partition act [(''DEVNAME'', ''/dev/sdd1''), (''ID_FS_LABEL'', ''TAPES'')]"

text \<open>A partition whose filesystem label begins with the path separator.\<close>

definition boot_labelled :: "string \<Rightarrow> device" where
  "boot_labelled act =
     usb_partition act [(''DEVNAME'', ''/dev/sde1''), (''ID_FS_LABEL'', ''/boot'')]"

text \<open>A partition below no USB device, whose grandparent cannot be resolved.\<close>

definition unreadable :: "string \<Rightarrow> device" where
  "unreadable act =
     Device (Some act) (Some ''block'') [(''DEVNAME'', ''/dev/sda1'')]
       (Parent (Device None (Some ''scsi'') [(''DEVTYPE'', ''scsi_device'')]
          (ParentRaises (OSError ''No such device''))))"

definition fresh :: state where
  "fresh = \<lparr> mounted_devices = [], trace = [] \<rparr>"

definition tracking :: "string list \<Rightarrow> state" where
  "tracking ds = \<lparr> mounted_devices = ds, trace = [] \<rparr>"

section \<open>Properties\<close>

subsection \<open>Running computations\<close>

lemmas io_apply =
  return_def raise_def blocked_def bind_def try_except_def try_finally_def emit_def
  call_raising_def call_result_def logger_info_def logger_warning_def logger_error_def
  time_sleep_def os_makedirs_def os_rmdir_def os_path_exists_def subprocess_run_def
  subprocess_Popen_def threading_Thread_start_def pyudev_def except_Exception_def
  except_OSError_def
  mounted_devices_add_def mounted_devices_discard_def mounted_devices_contains_def
  mounted_devices_list_def mounted_devices_clear_def

lemmas example_defs =
  env_ok_def env_busy_def env_wrong_fs_def env_no_marker_def env_no_mount_base_def
  env_no_netlink_def env_no_which_def env_no_thread_def env_raising_def completed_def usb_host_def usb_partition_def
  sdb1_def labelled_def labelled_twin_def boot_labelled_def unreadable_def fresh_def
  tracking_def

subsection \<open>Splitting a path\<close>







text \<open>
  \<open>os.path.join(MOUNT_BASE, label)\<close> is \<open>MOUNT_BASE/label\<close> for a label that does not
  begin with the separator; a label that does is taken as the whole path.
\<close>

lemma mount_point_relative:
  "\<not> (l \<noteq> [] \<and> hd l = CHR ''/'') \<Longrightarrow> os_path_join MOUNT_BASE l = MOUNT_BASE @ ''/'' @ l"
  by (simp add: os_path_join_def MOUNT_BASE_def)


lemma mount_point_nonempty: "os_path_join MOUNT_BASE l \<noteq> []"
  by (auto simp: os_path_join_def MOUNT_BASE_def)

subsection \<open>The classifier\<close>

lemma walk_chain:
  "walk d = Inr True \<Longrightarrow> \<exists>a \<in> set (chain d). subsystem a = Some ''usb''"
  "walk_parent p = Inr True \<Longrightarrow> \<exists>a \<in> set (chain_parent p). subsystem a = Some ''usb''"
  by (induction d and p rule: walk_walk_parent.induct) (auto split: if_splits)

lemma is_usb_device_chain:
  "is_usb_device d \<Longrightarrow> \<exists>a \<in> set (chain d). subsystem a = Some ''usb''"
  using walk_chain(1) [of d] by (auto simp: is_usb_device_def split: sum.splits)

text \<open>
  Claim C5. A device with no USB device among itself and its ancestors is not
  relevant: \<open>is_usb_device\<close> gives \<open>False\<close>. When resolving the parent chain raises
  during the walk, the exception is caught and the answer is \<open>False\<close>;
  \<open>is_usb_device\<close> has no raising outcome.
\<close>

theorem is_usb_device_rejects_non_usb:
  "((\<forall>a \<in> set (chain d). subsystem a \<noteq> Some ''usb'') \<longrightarrow> is_usb_device d = False) \<and>
   (\<forall>e. walk d = Inl e \<longrightarrow> is_usb_device d = False)"
proof (intro conjI allI impI)
  assume "\<forall>a \<in> set (chain d). subsystem a \<noteq> Some ''usb''"
  then show "is_usb_device d = False" using is_usb_device_chain [of d] by blast
next
  fix e
  assume "walk d = Inl e"
  then show "is_usb_device d = False" by (simp add: is_usb_device_def)
qed

theorem is_usb_device_rejects_non_usb_witness:
  "map subsystem (chain (unreadable ''add'')) = [Some ''block'', Some ''scsi''] \<and>
   walk (unreadable ''add'') = Inl (OSError ''No such device'') \<and>
   is_usb_device (unreadable ''add'') = False"
proof -
  have subsystems: "map subsystem (chain (unreadable ''add'')) = [Some ''block'', Some ''scsi'']"
    by (simp add: unreadable_def)
  then have none: "\<forall>a \<in> set (chain (unreadable ''add'')). subsystem a \<noteq> Some ''usb''"
    by (simp add: unreadable_def)
  have fails: "walk (unreadable ''add'') = Inl (OSError ''No such device'')"
    by (simp add: unreadable_def)
  from is_usb_device_rejects_non_usb [of "unreadable ''add''"] none
  have "is_usb_device (unreadable ''add'') = False" by blast
  with subsystems fails show ?thesis by blast
qed

subsection \<open>The identity of a device\<close>



subsection \<open>Shutdown\<close>

lemma cleanup_loop_run:
  "cleanup_loop ev ds s =
     (Returned (),
      s\<lparr>trace := trace s @ map (\<lambda>d. Run [''sudo'', ''umount'', d] (Some 10)) ds\<rparr>)"
  by (induction ds arbitrary: s) (auto simp: io_apply split: sum.splits)

lemma cleanup_run:
  "cleanup ev s =
     (Returned (),
      s\<lparr>trace := trace s @ Log INFO ''Cleaning up mounted devices...'' #
           map (\<lambda>device_name. Run [''sudo'', ''umount'', device_name] (Some 10))
             (mounted_devices s)\<rparr>)"
  by (simp add: cleanup_def bind_def logger_info_def emit_def mounted_devices_list_def
      cleanup_loop_run)

text \<open>
  Claim C9. Whatever the environment answers, \<open>cleanup\<close> returns normally, and after
  its log record it has run the unmount utility exactly once for each recorded device,
  in the order of the enumeration, each time with a timeout of 10 seconds and with the
  device node path itself as the argument (not the mount point
  \<open>os.path.join(MOUNT_BASE, label)\<close>). An attempt that raises, the timeout included,
  changes nothing for the attempts after it.
\<close>

theorem cleanup_attempts_every_device:
  "cleanup ev s =
     (Returned (),
      s\<lparr>trace := trace s @ Log INFO ''Cleaning up mounted devices...'' #
           map (\<lambda>device_name. Run [''sudo'', ''umount'', device_name] (Some 10))
             (mounted_devices s)\<rparr>)"
  by (rule cleanup_run)

theorem cleanup_attempts_every_device_witness:
  "cleanup env_raising (tracking [''/dev/sdb1'', ''/dev/sdc1'']) =
     (Returned (),
      \<lparr> mounted_devices = [''/dev/sdb1'', ''/dev/sdc1''],
        trace = [Log INFO ''Cleaning up mounted devices...'',
                 Run [''sudo'', ''umount'', ''/dev/sdb1''] (Some 10),
                 Run [''sudo'', ''umount'', ''/dev/sdc1''] (Some 10)] \<rparr>)"
  using cleanup_attempts_every_device [of env_raising "tracking [''/dev/sdb1'', ''/dev/sdc1'']"]
  by (simp add: tracking_def)

subsection \<open>What the mount, unmount and viewer functions do\<close>

lemma kill_chromium_run:
  "fst (kill_chromium ev s) = Returned () \<and>
   mounted_devices (snd (kill_chromium ev s)) = mounted_devices s \<and>
   (\<exists>l m. trace (snd (kill_chromium ev s)) =
      trace s @ [Run [''pkill'', ''-f'', ''chromium''] None, Log l m])"
  by (auto simp: kill_chromium_def io_apply split: sum.splits)

lemma kill_chromium_cases:
  obtains l m where "kill_chromium ev s =
     (Returned (), s\<lparr>trace := trace s @ [Run [''pkill'', ''-f'', ''chromium''] None, Log l m]\<rparr>)"
  by (cases "subprocess_run_result ev (trace s) [''pkill'', ''-f'', ''chromium''] None")
     (auto simp: kill_chromium_def io_apply)

lemma unmount_device_run:
  "fst (unmount_device ev info s) = Returned () \<and>
   mounted_devices (snd (unmount_device ev info s)) = mounted_devices s \<and>
   (\<exists>l m rest.
     trace (snd (unmount_device ev info s)) =
       trace s @
         Run [''pkill'', ''-f'', ''chromium''] None # Log l m # Sleep 2 #
         Run [''sudo'', ''umount'', os_path_join MOUNT_BASE (label info)] None # rest \<and>
     list_all (\<lambda>e. is_log e \<or> e = Rmdir (os_path_join MOUNT_BASE (label info))) rest)"
proof -
  obtain l m where k: "kill_chromium ev s =
     (Returned (), s\<lparr>trace := trace s @ [Run [''pkill'', ''-f'', ''chromium''] None, Log l m]\<rparr>)"
    by (rule kill_chromium_cases)
  show ?thesis
    unfolding unmount_device_def Let_def
    by (auto simp: k io_apply split: sum.splits option.splits exception.splits)
qed

lemma unmount_device_failure:
  assumes "\<forall>h. subprocess_run_result ev h [''sudo'', ''umount'', os_path_join MOUNT_BASE (label info)] None = Inr r"
    and "returncode r \<noteq> 0"
  shows "\<exists>l m.
     trace (snd (unmount_device ev info s)) =
        trace s @
           [Run [''pkill'', ''-f'', ''chromium''] None, Log l m, Sleep 2,
            Run [''sudo'', ''umount'', os_path_join MOUNT_BASE (label info)] None,
            Log ERROR (''Failed to unmount '' @ os_path_join MOUNT_BASE (label info) @ '': '' @ stderr r)]"
proof -
  obtain l m where k: "kill_chromium ev s =
     (Returned (), s\<lparr>trace := trace s @ [Run [''pkill'', ''-f'', ''chromium''] None, Log l m]\<rparr>)"
    by (rule kill_chromium_cases)
  show ?thesis
    unfolding unmount_device_def Let_def
    using assms by (auto simp: k io_apply split: sum.splits option.splits exception.splits)
qed

lemma mount_device_makedirs_raises:
  "os_makedirs_result ev (trace s) (os_path_join MOUNT_BASE (label info)) = Some e \<Longrightarrow>
   mount_device ev info s =
     (Returned None,
      s\<lparr>trace := trace s @
         [Makedirs (os_path_join MOUNT_BASE (label info)),
          Log ERROR (''Error mounting device '' @ name info @ '': '' @ str e)]\<rparr>)"
  by (simp add: mount_device_def Let_def io_apply)

lemma mount_device_run_raises:
  "os_makedirs_result ev (trace s) (os_path_join MOUNT_BASE (label info)) = None \<Longrightarrow>
   subprocess_run_result ev (trace s @ [Makedirs (os_path_join MOUNT_BASE (label info))])
     [''sudo'', ''mount'', name info, os_path_join MOUNT_BASE (label info)] None = Inl e \<Longrightarrow>
   mount_device ev info s =
     (Returned None,
      s\<lparr>trace := trace s @
         [Makedirs (os_path_join MOUNT_BASE (label info)),
          Run [''sudo'', ''mount'', name info, os_path_join MOUNT_BASE (label info)] None,
          Log ERROR (''Error mounting device '' @ name info @ '': '' @ str e)]\<rparr>)"
  by (simp add: mount_device_def Let_def io_apply)

lemma mount_device_exit:
  "os_makedirs_result ev (trace s) (os_path_join MOUNT_BASE (label info)) = None \<Longrightarrow>
   subprocess_run_result ev (trace s @ [Makedirs (os_path_join MOUNT_BASE (label info))])
     [''sudo'', ''mount'', name info, os_path_join MOUNT_BASE (label info)] None = Inr r \<Longrightarrow>
   mount_device ev info s =
     (if returncode r = 0
      then (Returned (Some (os_path_join MOUNT_BASE (label info))),
            s\<lparr>trace := trace s @
              [Makedirs (os_path_join MOUNT_BASE (label info)),
               Run [''sudo'', ''mount'', name info, os_path_join MOUNT_BASE (label info)] None,
               Log INFO (''Successfully mounted '' @ name info @ '' to '' @
                         os_path_join MOUNT_BASE (label info))]\<rparr>)
      else (Returned None,
            s\<lparr>trace := trace s @
              [Makedirs (os_path_join MOUNT_BASE (label info)),
               Run [''sudo'', ''mount'', name info, os_path_join MOUNT_BASE (label info)] None,
               Log ERROR (''Failed to mount '' @ name info @ '': '' @ stderr r)]\<rparr>))"
  by (simp add: mount_device_def Let_def io_apply)

lemma mount_device_run:
  "fst (mount_device ev info s) \<in> {Returned None, Returned (Some (os_path_join MOUNT_BASE (label info)))} \<and>
   mounted_devices (snd (mount_device ev info s)) = mounted_devices s \<and>
   (\<exists>rest. trace (snd (mount_device ev info s)) =
        trace s @ Makedirs (os_path_join MOUNT_BASE (label info)) # rest \<and>
     list_all (\<lambda>e. is_log e \<or>
        e = Run [''sudo'', ''mount'', name info, os_path_join MOUNT_BASE (label info)] None) rest)"
  by (auto simp: mount_device_def Let_def io_apply split: sum.splits option.splits)

subsection \<open>Removal of a device\<close>

lemma new_effects_append [simp]: "new_effects s (s'\<lparr>trace := trace s @ es\<rparr>) = es"
  by (simp add: new_effects_def)

lemma new_effects_same [simp]: "new_effects s s = []"
  by (simp add: new_effects_def)

lemma handle_device_remove_skip:
  "\<not> is_usb_device d \<or> name (get_device_info d) \<notin> set (mounted_devices s) \<Longrightarrow>
   handle_device_remove ev d s = (Returned (), s)"
  by (auto simp: handle_device_remove_def Let_def io_apply)

lemma returned_unit:
  "fst (m s) = Returned () \<Longrightarrow> bind m f s = f () (snd (m s))"
  by (cases "m s") (simp add: bind_def)

lemma handle_device_remove_tracked:
  assumes "is_usb_device d" and "name (get_device_info d) \<in> set (mounted_devices s)"
  shows "handle_device_remove ev d s =
     (Returned (),
      (snd (unmount_device ev (get_device_info d)
         (s\<lparr>trace := trace s @
            [Log INFO (''USB device removed: '' @ repr_device_info (get_device_info d))]\<rparr>)))
      \<lparr>mounted_devices := removeAll (name (get_device_info d)) (mounted_devices s)\<rparr>)"
proof -
  define s0 where "s0 = s\<lparr>trace := trace s @
            [Log INFO (''USB device removed: '' @ repr_device_info (get_device_info d))]\<rparr>"
  have log: "logger_info (''USB device removed: '' @ repr_device_info (get_device_info d)) s
             = (Returned (), s0)"
    by (simp add: s0_def logger_info_def emit_def)
  have u: "fst (unmount_device ev (get_device_info d) s0) = Returned ()"
    and m: "mounted_devices (snd (unmount_device ev (get_device_info d) s0)) = mounted_devices s"
    using unmount_device_run [of ev "get_device_info d" s0] by (simp_all add: s0_def)
  have "handle_device_remove ev d s =
        bind (logger_info (''USB device removed: '' @ repr_device_info (get_device_info d)))
          (\<lambda>_. bind (unmount_device ev (get_device_info d))
                  (\<lambda>_. mounted_devices_discard (name (get_device_info d)))) s"
    using assms by (simp add: handle_device_remove_def Let_def bind_def mounted_devices_contains_def)
  also have "\<dots> = bind (unmount_device ev (get_device_info d))
                  (\<lambda>_. mounted_devices_discard (name (get_device_info d))) s0"
    using log by (simp add: returned_unit)
  also have "\<dots> = mounted_devices_discard (name (get_device_info d))
                    (snd (unmount_device ev (get_device_info d) s0))"
    using u by (simp add: returned_unit)
  finally show ?thesis
    using m by (simp add: mounted_devices_discard_def s0_def)
qed


lemma no_umount_in_rest:
  "list_all (\<lambda>e. is_log e \<or> e = Rmdir p) rest \<Longrightarrow> filter is_umount_call rest = []"
  by (induction rest) (auto elim: is_log.elims)

lemma umount_calls_unmount_device:
  "umount_calls (new_effects s (snd (unmount_device ev info s))) = 1"
proof -
  obtain l m rest where t: "trace (snd (unmount_device ev info s)) =
       trace s @
         Run [''pkill'', ''-f'', ''chromium''] None # Log l m # Sleep 2 #
         Run [''sudo'', ''umount'', os_path_join MOUNT_BASE (label info)] None # rest"
    and r: "list_all (\<lambda>e. is_log e \<or> e = Rmdir (os_path_join MOUNT_BASE (label info))) rest"
    using unmount_device_run [of ev info s] by blast
  show ?thesis
    using no_umount_in_rest [OF r] by (simp add: t new_effects_def umount_calls_def)
qed

text \<open>
  Claim C3. The guard of the unmount is in \<open>handle_device_remove\<close>: for a device
  whose node path is not in \<open>mounted_devices\<close> the handler does nothing at all (no
  effect, so no call of the unmount utility, no change of state, a normal return). The
  handler never raises and calls the unmount utility at most once; run a second time for
  the same device, right after the first, it is such a no-op.
\<close>

theorem handle_device_remove_noop:
  "(name (get_device_info d) \<notin> set (mounted_devices s) \<longrightarrow>
      handle_device_remove ev d s = (Returned (), s)) \<and>
   fst (handle_device_remove ev d s) = Returned () \<and>
   umount_calls (new_effects s (snd (handle_device_remove ev d s))) \<le> 1 \<and>
   handle_device_remove ev d (snd (handle_device_remove ev d s)) =
     (Returned (), snd (handle_device_remove ev d s))"
proof (cases "is_usb_device d \<and> name (get_device_info d) \<in> set (mounted_devices s)")
  case False
  then have "handle_device_remove ev d s = (Returned (), s)"
    by (intro handle_device_remove_skip) blast
  then show ?thesis by (simp add: umount_calls_def)
next
  case True
  define s0 where "s0 = s\<lparr>trace := trace s @
            [Log INFO (''USB device removed: '' @ repr_device_info (get_device_info d))]\<rparr>"
  define s1 where "s1 = (snd (unmount_device ev (get_device_info d) s0))
      \<lparr>mounted_devices := removeAll (name (get_device_info d)) (mounted_devices s)\<rparr>"
  have run: "handle_device_remove ev d s = (Returned (), s1)"
    using True handle_device_remove_tracked [of d s ev] by (simp add: s0_def s1_def)
  have gone: "name (get_device_info d) \<notin> set (mounted_devices s1)"
    by (simp add: s1_def)
  have again: "handle_device_remove ev d s1 = (Returned (), s1)"
    using gone by (intro handle_device_remove_skip) blast
  have "new_effects s s1 =
        Log INFO (''USB device removed: '' @ repr_device_info (get_device_info d)) #
        new_effects s0 (snd (unmount_device ev (get_device_info d) s0))"
    using unmount_device_run [of ev "get_device_info d" s0]
    by (auto simp: new_effects_def s0_def s1_def)
  then have "umount_calls (new_effects s s1) = 1"
    using umount_calls_unmount_device [of s0 ev "get_device_info d"]
    by (simp add: umount_calls_def)
  with True run again show ?thesis by simp
qed

theorem handle_device_remove_noop_witness:
  "name (get_device_info (sdb1 ''remove'')) \<notin> set (mounted_devices fresh) \<and>
   handle_device_remove env_ok (sdb1 ''remove'') fresh = (Returned (), fresh) \<and>
   umount_calls (new_effects (tracking [''/dev/sdb1''])
     (snd (handle_device_remove env_ok (sdb1 ''remove'') (tracking [''/dev/sdb1''])))) \<le> 1 \<and>
   handle_device_remove env_ok (sdb1 ''remove'')
     (snd (handle_device_remove env_ok (sdb1 ''remove'') (tracking [''/dev/sdb1'']))) =
     (Returned (), snd (handle_device_remove env_ok (sdb1 ''remove'') (tracking [''/dev/sdb1''])))"
proof -
  have untracked: "name (get_device_info (sdb1 ''remove'')) \<notin> set (mounted_devices fresh)"
    by (simp add: fresh_def)
  from handle_device_remove_noop [of "sdb1 ''remove''" fresh env_ok] untracked
  have first: "handle_device_remove env_ok (sdb1 ''remove'') fresh = (Returned (), fresh)"
    by blast
  from handle_device_remove_noop [of "sdb1 ''remove''" "tracking [''/dev/sdb1'']" env_ok]
    untracked first
  show ?thesis by blast
qed

subsection \<open>Computations that leave the tracked set alone\<close>








subsection \<open>Insertion of a device, and the unmount target\<close>


lemma handle_device_add_usb:
  assumes "is_usb_device d"
  shows "handle_device_add ev d s =
     (case mount_device ev (get_device_info d)
         (s\<lparr>trace := trace s @
            [Log INFO (''USB device inserted: '' @ repr_device_info (get_device_info d)),
             Sleep 2]\<rparr>) of
        (Returned None, s3) \<Rightarrow> (Returned (), s3)
      | (Returned (Some mp), s3) \<Rightarrow>
          if mp = [] then (Returned (), s3)
          else if os_path_exists_result ev (trace s3) (os_path_join mp ''index.html'')
          then ((case thread_start_result ev
                        (trace s3 @
                           [Exists (os_path_join mp ''index.html''),
                            Log INFO (''Found index.html at '' @ os_path_join mp ''index.html'')])
                        (os_path_join mp ''index.html'') of
                   None \<Rightarrow> Returned ()
                 | Some e \<Rightarrow> Raised (Exception e)),
                s3\<lparr>mounted_devices := List.insert (name (get_device_info d)) (mounted_devices s3),
                   trace := trace s3 @
                     [Exists (os_path_join mp ''index.html''),
                      Log INFO (''Found index.html at '' @ os_path_join mp ''index.html''),
                      Thread_start_launch_chromium (os_path_join mp ''index.html'')]\<rparr>)
          else (Returned (),
                s3\<lparr>mounted_devices := List.insert (name (get_device_info d)) (mounted_devices s3),
                   trace := trace s3 @
                     [Exists (os_path_join mp ''index.html''),
                      Log INFO (''No index.html found in '' @ mp)]\<rparr>)
      | (Raised r, s3) \<Rightarrow> (Raised r, s3)
      | (Blocked, s3) \<Rightarrow> (Blocked, s3))"
  using assms
  by (auto simp: handle_device_add_def Let_def io_apply split: prod.splits outcome.splits option.splits)





subsection \<open>Removal when the unmount utility fails\<close>

text \<open>
  Claim C2, as the code has it. For a USB device whose node path is tracked, the
  removal handler returns normally and the path is no longer tracked afterwards,
  whatever the unmount utility did: \<open>discard\<close> follows \<open>unmount_device\<close>
  unconditionally. When the utility exits with a non-zero status, the last thing the
  handler does is to log the failure with the utility's diagnostic text, and the mount
  point directory is not removed.
\<close>

theorem handle_device_remove_forgets:
  assumes usb: "is_usb_device d"
    and tracked: "name (get_device_info d) \<in> set (mounted_devices s)"
  shows "fst (handle_device_remove ev d s) = Returned () \<and>
     name (get_device_info d) \<notin> set (mounted_devices (snd (handle_device_remove ev d s))) \<and>
     ((\<forall>h. subprocess_run_result ev h
            [''sudo'', ''umount'', os_path_join MOUNT_BASE (label (get_device_info d))] None = Inr r) \<and>
      returncode r \<noteq> 0 \<longrightarrow>
        last (trace (snd (handle_device_remove ev d s))) =
          Log ERROR (''Failed to unmount '' @ os_path_join MOUNT_BASE (label (get_device_info d)) @
                     '': '' @ stderr r) \<and>
        Rmdir (os_path_join MOUNT_BASE (label (get_device_info d)))
          \<notin> set (new_effects s (snd (handle_device_remove ev d s))))"
proof -
  define s0 where "s0 = s\<lparr>trace := trace s @
            [Log INFO (''USB device removed: '' @ repr_device_info (get_device_info d))]\<rparr>"
  define s1 where "s1 = (snd (unmount_device ev (get_device_info d) s0))
      \<lparr>mounted_devices := removeAll (name (get_device_info d)) (mounted_devices s)\<rparr>"
  have run: "handle_device_remove ev d s = (Returned (), s1)"
    using usb tracked handle_device_remove_tracked [of d s ev] by (simp add: s0_def s1_def)
  have gone: "name (get_device_info d) \<notin> set (mounted_devices s1)"
    by (simp add: s1_def)
  have failure: "last (trace s1) =
          Log ERROR (''Failed to unmount '' @ os_path_join MOUNT_BASE (label (get_device_info d)) @
                     '': '' @ stderr r) \<and>
        Rmdir (os_path_join MOUNT_BASE (label (get_device_info d))) \<notin> set (new_effects s s1)"
    if a: "\<forall>h. subprocess_run_result ev h
            [''sudo'', ''umount'', os_path_join MOUNT_BASE (label (get_device_info d))] None = Inr r"
      and b: "returncode r \<noteq> 0"
  proof -
    obtain l m where "trace (snd (unmount_device ev (get_device_info d) s0)) =
        trace s0 @
           [Run [''pkill'', ''-f'', ''chromium''] None, Log l m, Sleep 2,
            Run [''sudo'', ''umount'', os_path_join MOUNT_BASE (label (get_device_info d))] None,
            Log ERROR (''Failed to unmount '' @ os_path_join MOUNT_BASE (label (get_device_info d)) @
                       '': '' @ stderr r)]"
      using unmount_device_failure [where s = s0, OF a b] by blast
    then show ?thesis
      by (simp add: s1_def s0_def new_effects_def)
  qed
  from run gone failure show ?thesis by simp
qed

theorem handle_device_remove_forgets_witness:
  "is_usb_device (sdb1 ''remove'') \<and>
   name (get_device_info (sdb1 ''remove'')) \<in> set (mounted_devices (tracking [''/dev/sdb1''])) \<and>
   fst (handle_device_remove env_busy (sdb1 ''remove'') (tracking [''/dev/sdb1''])) = Returned () \<and>
   name (get_device_info (sdb1 ''remove'')) \<notin>
     set (mounted_devices (snd (handle_device_remove env_busy (sdb1 ''remove'') (tracking [''/dev/sdb1''])))) \<and>
   last (trace (snd (handle_device_remove env_busy (sdb1 ''remove'') (tracking [''/dev/sdb1''])))) =
     Log ERROR ''Failed to unmount /mnt/casette/usb_sdb1: target is busy''"
proof -
  have usb: "is_usb_device (sdb1 ''remove'')"
    by (simp add: is_usb_device_def example_defs)
  have tracked: "name (get_device_info (sdb1 ''remove'')) \<in> set (mounted_devices (tracking [''/dev/sdb1'']))"
    by (simp add: example_defs get_device_info_def device_get_def)
  have mp: "os_path_join MOUNT_BASE (label (get_device_info (sdb1 ''remove''))) = ''/mnt/casette/usb_sdb1''"
    by (simp add: example_defs get_device_info_def device_get_def os_path_join_def MOUNT_BASE_def)
  have busy: "\<forall>h. subprocess_run_result env_busy h
     [''sudo'', ''umount'', os_path_join MOUNT_BASE (label (get_device_info (sdb1 ''remove'')))] None =
     Inr (completed 32 ''target is busy'')"
    by (simp add: env_busy_def env_ok_def)
  have rc: "returncode (completed 32 ''target is busy'') \<noteq> 0"
    by (simp add: completed_def)
  from handle_device_remove_forgets [OF usb tracked, of env_busy "completed 32 ''target is busy''"]
    busy rc
  have "fst (handle_device_remove env_busy (sdb1 ''remove'') (tracking [''/dev/sdb1''])) = Returned () \<and>
     name (get_device_info (sdb1 ''remove'')) \<notin>
       set (mounted_devices (snd (handle_device_remove env_busy (sdb1 ''remove'') (tracking [''/dev/sdb1''])))) \<and>
     last (trace (snd (handle_device_remove env_busy (sdb1 ''remove'') (tracking [''/dev/sdb1''])))) =
       Log ERROR (''Failed to unmount '' @ os_path_join MOUNT_BASE (label (get_device_info (sdb1 ''remove''))) @
                  '': '' @ stderr (completed 32 ''target is busy''))"
    by blast
  then show ?thesis
    using usb tracked by (simp add: mp completed_def)
qed

text \<open>
  The record is not left in place when the unmount utility fails: \<open>/dev/sdb1\<close> is
  tracked, the utility exits with status 32, and after the removal the tracked set no
  longer holds \<open>/dev/sdb1\<close>.
\<close>

theorem unmount_failure_drops_record:
  "is_usb_device (sdb1 ''remove'') \<and>
   name (get_device_info (sdb1 ''remove'')) = ''/dev/sdb1'' \<and>
   ''/dev/sdb1'' \<in> set (mounted_devices (tracking [''/dev/sdb1''])) \<and>
   (\<forall>h. subprocess_run_result env_busy h [''sudo'', ''umount'', ''/mnt/casette/usb_sdb1''] None =
      Inr (completed 32 ''target is busy'')) \<and>
   ''/dev/sdb1'' \<notin>
     set (mounted_devices (snd (handle_device_remove env_busy (sdb1 ''remove'') (tracking [''/dev/sdb1'']))))"
proof -
  have usb: "is_usb_device (sdb1 ''remove'')"
    by (simp add: is_usb_device_def example_defs)
  have nm: "name (get_device_info (sdb1 ''remove'')) = ''/dev/sdb1''"
    by (simp add: example_defs get_device_info_def device_get_def)
  have tracked: "''/dev/sdb1'' \<in> set (mounted_devices (tracking [''/dev/sdb1'']))"
    by (simp add: tracking_def)
  have busy: "\<forall>h. subprocess_run_result env_busy h [''sudo'', ''umount'', ''/mnt/casette/usb_sdb1''] None =
      Inr (completed 32 ''target is busy'')"
    by (simp add: env_busy_def env_ok_def)
  have "mounted_devices (snd (handle_device_remove env_busy (sdb1 ''remove'') (tracking [''/dev/sdb1'']))) = []"
    using usb tracked
    by (simp add: handle_device_remove_tracked nm tracking_def)
  with usb nm tracked busy show ?thesis by simp
qed

subsection \<open>Presentation after a mount\<close>

lemma no_viewer_in_logs_and_runs:
  "list_all (\<lambda>e. is_log e \<or> e = Run cmd t) rest \<Longrightarrow> filter is_viewer_start rest = []"
  by (induction rest) (auto elim: is_log.elims)

lemma mount_device_no_viewer:
  "filter is_viewer_start (new_effects s (snd (mount_device ev info s))) = []"
proof -
  obtain rest where t: "trace (snd (mount_device ev info s)) =
        trace s @ Makedirs (os_path_join MOUNT_BASE (label info)) # rest"
    and r: "list_all (\<lambda>e. is_log e \<or>
        e = Run [''sudo'', ''mount'', name info, os_path_join MOUNT_BASE (label info)] None) rest"
    using mount_device_run [of ev info s] by blast
  show ?thesis
    using no_viewer_in_logs_and_runs [OF r] by (simp add: t new_effects_def)
qed

lemma mount_device_extends_trace:
  "trace (snd (mount_device ev info s)) =
     trace s @ new_effects s (snd (mount_device ev info s))"
  using mount_device_run [of ev info s] by (auto simp: new_effects_def)

lemma handle_device_add_mounted:
  assumes usb: "is_usb_device d"
    and mounted: "mount_device ev (get_device_info d)
         (s\<lparr>trace := trace s @
            [Log INFO (''USB device inserted: '' @ repr_device_info (get_device_info d)),
             Sleep 2]\<rparr>) = (Returned (Some mp), s3)"
  shows "snd (handle_device_add ev d s) =
           s3\<lparr>mounted_devices := List.insert (name (get_device_info d)) (mounted_devices s),
              trace := trace s3 @ Exists (os_path_join mp ''index.html'') #
                (if os_path_exists_result ev (trace s3) (os_path_join mp ''index.html'')
                 then [Log INFO (''Found index.html at '' @ os_path_join mp ''index.html''),
                       Thread_start_launch_chromium (os_path_join mp ''index.html'')]
                 else [Log INFO (''No index.html found in '' @ mp)])\<rparr>"
    and "mp = os_path_join MOUNT_BASE (label (get_device_info d))"
    and "filter is_viewer_start (new_effects s s3) = []"
    and "trace s3 = trace s @ new_effects s s3"
    and "fst (handle_device_add ev d s) =
           (if os_path_exists_result ev (trace s3) (os_path_join mp ''index.html'')
            then (case thread_start_result ev
                         (trace s3 @
                            [Exists (os_path_join mp ''index.html''),
                             Log INFO (''Found index.html at '' @ os_path_join mp ''index.html'')])
                         (os_path_join mp ''index.html'') of
                    None \<Rightarrow> Returned ()
                  | Some e \<Rightarrow> Raised (Exception e))
            else Returned ())"
proof -
  define s2 where "s2 = s\<lparr>trace := trace s @
            [Log INFO (''USB device inserted: '' @ repr_device_info (get_device_info d)),
             Sleep 2]\<rparr>"
  have m: "mount_device ev (get_device_info d) s2 = (Returned (Some mp), s3)"
    using mounted by (simp add: s2_def)
  show mp: "mp = os_path_join MOUNT_BASE (label (get_device_info d))"
    using mount_device_run [of ev "get_device_info d" s2] m by simp
  then have ne: "mp \<noteq> []" by (simp add: mount_point_nonempty)
  have md: "mounted_devices s3 = mounted_devices s"
    using mount_device_run [of ev "get_device_info d" s2] m by (simp add: s2_def)
  show "snd (handle_device_add ev d s) =
           s3\<lparr>mounted_devices := List.insert (name (get_device_info d)) (mounted_devices s),
              trace := trace s3 @ Exists (os_path_join mp ''index.html'') #
                (if os_path_exists_result ev (trace s3) (os_path_join mp ''index.html'')
                 then [Log INFO (''Found index.html at '' @ os_path_join mp ''index.html''),
                       Thread_start_launch_chromium (os_path_join mp ''index.html'')]
                 else [Log INFO (''No index.html found in '' @ mp)])\<rparr>"
    unfolding handle_device_add_usb [OF usb] mounted using ne md by simp
  show "fst (handle_device_add ev d s) =
           (if os_path_exists_result ev (trace s3) (os_path_join mp ''index.html'')
            then (case thread_start_result ev
                         (trace s3 @
                            [Exists (os_path_join mp ''index.html''),
                             Log INFO (''Found index.html at '' @ os_path_join mp ''index.html'')])
                         (os_path_join mp ''index.html'') of
                    None \<Rightarrow> Returned ()
                  | Some e \<Rightarrow> Raised (Exception e))
            else Returned ())"
    unfolding handle_device_add_usb [OF usb] mounted using ne by simp
  obtain es where es: "trace s3 = trace s2 @ es"
    using mount_device_extends_trace [of ev "get_device_info d" s2] m by auto
  have inner: "new_effects s2 s3 = es"
    by (simp add: new_effects_def es)
  have outer: "new_effects s s3 =
      [Log INFO (''USB device inserted: '' @ repr_device_info (get_device_info d)), Sleep 2] @ es"
    by (simp add: new_effects_def es s2_def)
  have nv: "filter is_viewer_start es = []"
    using mount_device_no_viewer [of s2 ev "get_device_info d"] m inner by simp
  show "filter is_viewer_start (new_effects s s3) = []"
    using nv by (simp add: outer)
  show "trace s3 = trace s @ new_effects s s3"
    by (simp add: outer es s2_def)
qed

lemma launch_chromium_exact:
  "launch_chromium ev p s =
     (let s1 = snd (kill_chromium ev s);
          h1 = trace s1 @ [Sleep 1];
          h2 = h1 @ [Run [''which'', ''chromium''] None]
      in case subprocess_run_result ev h1 [''which'', ''chromium''] None of
           Inl e \<Rightarrow>
             (Returned None,
              s1\<lparr>trace := h2 @ [Log ERROR (''Error launching Chromium: '' @ str e)]\<rparr>)
         | Inr which \<Rightarrow>
             (case subprocess_Popen_result ev h2 (kiosk_cmd (chromium_cmd which) p) of
                Inl e \<Rightarrow>
                  (Returned None,
                   s1\<lparr>trace := h2 @
                      [Popen (kiosk_cmd (chromium_cmd which) p) DISPLAY,
                       Log ERROR (''Error launching Chromium: '' @ str e)]\<rparr>)
              | Inr process \<Rightarrow>
                  (Returned (Some process),
                   s1\<lparr>trace := h2 @
                      [Popen (kiosk_cmd (chromium_cmd which) p) DISPLAY,
                       Log INFO (''Launched Chromium in kiosk mode with '' @ p)]\<rparr>)))"
proof -
  obtain l m where k: "kill_chromium ev s =
     (Returned (), s\<lparr>trace := trace s @ [Run [''pkill'', ''-f'', ''chromium''] None, Log l m]\<rparr>)"
    by (rule kill_chromium_cases)
  show ?thesis
    unfolding launch_chromium_def Let_def
    by (auto simp: k io_apply kiosk_cmd_def chromium_cmd_def split: sum.splits)
qed

lemma kill_chromium_no_viewer:
  "\<exists>es. trace (snd (kill_chromium ev s)) = trace s @ es \<and> filter is_viewer_start es = []"
  using kill_chromium_run [of ev s] by auto

lemma launch_chromium_cases:
  "let s1 = snd (kill_chromium ev t);
       h1 = trace s1 @ [Sleep 1];
       h2 = h1 @ [Run [''which'', ''chromium''] None]
   in (\<forall>e. subprocess_run_result ev h1 [''which'', ''chromium''] None = Inl e \<longrightarrow>
         fst (launch_chromium ev p t) = Returned None \<and>
         filter is_viewer_start (new_effects t (snd (launch_chromium ev p t))) = [] \<and>
         last (trace (snd (launch_chromium ev p t))) =
           Log ERROR (''Error launching Chromium: '' @ str e)) \<and>
      (\<forall>which process.
         subprocess_run_result ev h1 [''which'', ''chromium''] None = Inr which \<and>
         subprocess_Popen_result ev h2 (kiosk_cmd (chromium_cmd which) p) = Inr process \<longrightarrow>
         fst (launch_chromium ev p t) = Returned (Some process) \<and>
         filter is_viewer_start (new_effects t (snd (launch_chromium ev p t))) =
           [Popen (kiosk_cmd (chromium_cmd which) p) DISPLAY]) \<and>
      (\<forall>which e.
         subprocess_run_result ev h1 [''which'', ''chromium''] None = Inr which \<and>
         subprocess_Popen_result ev h2 (kiosk_cmd (chromium_cmd which) p) = Inl e \<longrightarrow>
         fst (launch_chromium ev p t) = Returned None \<and>
         filter is_viewer_start (new_effects t (snd (launch_chromium ev p t))) =
           [Popen (kiosk_cmd (chromium_cmd which) p) DISPLAY] \<and>
         last (trace (snd (launch_chromium ev p t))) =
           Log ERROR (''Error launching Chromium: '' @ str e))"
proof -
  obtain es where es: "trace (snd (kill_chromium ev t)) = trace t @ es"
    and nv: "filter is_viewer_start es = []"
    using kill_chromium_no_viewer [of ev t] by blast
  show ?thesis
    unfolding Let_def
    using nv by (auto simp: launch_chromium_exact [of ev p t] Let_def es new_effects_def)
qed

text \<open>
  Claim C8, as the code has it. After a successful mount of a USB device at \<open>mp\<close>,
  the add handler asks whether \<open>os.path.join(mp, 'index.html')\<close> exists. If it does
  not, the handler starts no viewer (neither a thread nor a process), ends with the log
  record that nothing was found, and returns. If it does, and the thread can be
  started, the handler starts exactly one thread, whose argument is that marker path,
  and returns; the launch itself, \<open>launch_chromium\<close>, is the thread's work and not part
  of the handler's effects. The launch never raises. It starts the viewer process
  exactly once, with \<open>file://\<close> and the marker path as its last argument, when
  \<open>which chromium\<close> can be run and \<open>Popen\<close> returns; when \<open>which\<close> cannot be run
  it starts no process, and when \<open>Popen\<close> raises its one attempt fails: in both cases
  the error is logged and the result is \<open>None\<close>.
\<close>

theorem handle_device_add_presents:
  assumes usb: "is_usb_device d"
    and mounted: "mount_device ev (get_device_info d)
         (s\<lparr>trace := trace s @
            [Log INFO (''USB device inserted: '' @ repr_device_info (get_device_info d)),
             Sleep 2]\<rparr>) = (Returned (Some mp), s3)"
  shows "let index_path = os_path_join mp ''index.html'';
             t1 = snd (kill_chromium ev t);
             h1 = trace t1 @ [Sleep 1];
             h2 = h1 @ [Run [''which'', ''chromium''] None]
     in (\<not> os_path_exists_result ev (trace s3) index_path \<longrightarrow>
           fst (handle_device_add ev d s) = Returned () \<and>
           filter is_viewer_start (new_effects s (snd (handle_device_add ev d s))) = [] \<and>
           last (trace (snd (handle_device_add ev d s))) =
             Log INFO (''No index.html found in '' @ mp)) \<and>
        (os_path_exists_result ev (trace s3) index_path \<and>
         thread_start_result ev
           (trace s3 @ [Exists index_path, Log INFO (''Found index.html at '' @ index_path)])
           index_path = None \<longrightarrow>
           fst (handle_device_add ev d s) = Returned () \<and>
           filter is_viewer_start (new_effects s (snd (handle_device_add ev d s))) =
             [Thread_start_launch_chromium index_path]) \<and>
        (\<forall>e. subprocess_run_result ev h1 [''which'', ''chromium''] None = Inl e \<longrightarrow>
           fst (launch_chromium ev index_path t) = Returned None \<and>
           filter is_viewer_start
             (new_effects t (snd (launch_chromium ev index_path t))) = [] \<and>
           last (trace (snd (launch_chromium ev index_path t))) =
             Log ERROR (''Error launching Chromium: '' @ str e)) \<and>
        (\<forall>which process.
           subprocess_run_result ev h1 [''which'', ''chromium''] None = Inr which \<and>
           subprocess_Popen_result ev h2 (kiosk_cmd (chromium_cmd which) index_path) =
             Inr process \<longrightarrow>
           fst (launch_chromium ev index_path t) = Returned (Some process) \<and>
           filter is_viewer_start
             (new_effects t (snd (launch_chromium ev index_path t))) =
             [Popen (kiosk_cmd (chromium_cmd which) index_path) DISPLAY]) \<and>
        (\<forall>which e.
           subprocess_run_result ev h1 [''which'', ''chromium''] None = Inr which \<and>
           subprocess_Popen_result ev h2 (kiosk_cmd (chromium_cmd which) index_path) =
             Inl e \<longrightarrow>
           fst (launch_chromium ev index_path t) = Returned None \<and>
           filter is_viewer_start
             (new_effects t (snd (launch_chromium ev index_path t))) =
             [Popen (kiosk_cmd (chromium_cmd which) index_path) DISPLAY] \<and>
           last (trace (snd (launch_chromium ev index_path t))) =
             Log ERROR (''Error launching Chromium: '' @ str e))"
proof -
  note run = handle_device_add_mounted [OF usb mounted]
  obtain es where es: "trace s3 = trace s @ es" and nv: "filter is_viewer_start es = []"
    using run(3,4) by metis
  have absent: "fst (handle_device_add ev d s) = Returned () \<and>
        filter is_viewer_start (new_effects s (snd (handle_device_add ev d s))) = [] \<and>
        last (trace (snd (handle_device_add ev d s))) = Log INFO (''No index.html found in '' @ mp)"
    if "\<not> os_path_exists_result ev (trace s3) (os_path_join mp ''index.html'')"
    using that nv by (simp add: run(1) run(5) new_effects_def es)
  have present: "fst (handle_device_add ev d s) = Returned () \<and>
        filter is_viewer_start (new_effects s (snd (handle_device_add ev d s))) =
          [Thread_start_launch_chromium (os_path_join mp ''index.html'')]"
    if "os_path_exists_result ev (trace s3) (os_path_join mp ''index.html'') \<and>
        thread_start_result ev
           (trace s3 @ [Exists (os_path_join mp ''index.html''),
                        Log INFO (''Found index.html at '' @ os_path_join mp ''index.html'')])
           (os_path_join mp ''index.html'') = None"
    using that nv by (simp add: run(1) run(5) new_effects_def es)
  note launch = launch_chromium_cases [of ev t "os_path_join mp ''index.html''", unfolded Let_def]
  have no_marker: "\<not> os_path_exists_result ev (trace s3) (os_path_join mp ''index.html'') \<longrightarrow>
        fst (handle_device_add ev d s) = Returned () \<and>
        filter is_viewer_start (new_effects s (snd (handle_device_add ev d s))) = [] \<and>
        last (trace (snd (handle_device_add ev d s))) = Log INFO (''No index.html found in '' @ mp)"
    using absent by blast
  have marker: "os_path_exists_result ev (trace s3) (os_path_join mp ''index.html'') \<and>
        thread_start_result ev
           (trace s3 @ [Exists (os_path_join mp ''index.html''),
                        Log INFO (''Found index.html at '' @ os_path_join mp ''index.html'')])
           (os_path_join mp ''index.html'') = None \<longrightarrow>
        fst (handle_device_add ev d s) = Returned () \<and>
        filter is_viewer_start (new_effects s (snd (handle_device_add ev d s))) =
          [Thread_start_launch_chromium (os_path_join mp ''index.html'')]"
    using present by blast
  show ?thesis
    unfolding Let_def
    by (intro conjI no_marker marker launch [THEN conjunct1]
        launch [THEN conjunct2, THEN conjunct1] launch [THEN conjunct2, THEN conjunct2])
qed

lemma sdb1_add_facts:
  "is_usb_device (sdb1 ''add'')"
  "name (get_device_info (sdb1 ''add'')) = ''/dev/sdb1''"
  "label (get_device_info (sdb1 ''add'')) = ''usb_sdb1''"
  "os_path_join MOUNT_BASE ''usb_sdb1'' = ''/mnt/casette/usb_sdb1''"
  "os_path_join ''/mnt/casette/usb_sdb1'' ''index.html'' = ''/mnt/casette/usb_sdb1/index.html''"
  by (simp_all add: is_usb_device_def example_defs get_device_info_def device_get_def
      os_path_join_def MOUNT_BASE_def)

lemma mount_device_env_ok:
  "fst (mount_device env_ok info s) = Returned (Some (os_path_join MOUNT_BASE (label info)))"
  "fst (mount_device env_no_marker info s) = Returned (Some (os_path_join MOUNT_BASE (label info)))"
  by (simp_all add: mount_device_def Let_def io_apply env_ok_def env_no_marker_def completed_def)

theorem handle_device_add_presents_witness:
  "is_usb_device (sdb1 ''add'') \<and>
   fst (mount_device env_ok (get_device_info (sdb1 ''add''))
         (fresh\<lparr>trace := trace fresh @
            [Log INFO (''USB device inserted: '' @ repr_device_info (get_device_info (sdb1 ''add''))),
             Sleep 2]\<rparr>)) = Returned (Some ''/mnt/casette/usb_sdb1'') \<and>
   filter is_viewer_start (new_effects fresh (snd (handle_device_add env_ok (sdb1 ''add'') fresh))) =
     [Thread_start_launch_chromium ''/mnt/casette/usb_sdb1/index.html''] \<and>
   filter is_viewer_start (new_effects fresh (snd (handle_device_add env_no_marker (sdb1 ''add'') fresh))) = [] \<and>
   last (trace (snd (handle_device_add env_no_marker (sdb1 ''add'') fresh))) =
     Log INFO ''No index.html found in /mnt/casette/usb_sdb1'' \<and>
   fst (launch_chromium env_ok ''/mnt/casette/usb_sdb1/index.html'' fresh) = Returned (Some 4242) \<and>
   filter is_viewer_start
     (new_effects fresh (snd (launch_chromium env_ok ''/mnt/casette/usb_sdb1/index.html'' fresh))) =
     [Popen [''chromium'', ''--kiosk'', ''--no-sandbox'', ''--disable-web-security'',
             ''--disable-features=TranslateUI'', ''--disable-ipc-flooding-protection'',
             ''--start-fullscreen'', ''file:///mnt/casette/usb_sdb1/index.html''] '':0'']"
proof -
  define s2 where "s2 = fresh\<lparr>trace := trace fresh @
            [Log INFO (''USB device inserted: '' @ repr_device_info (get_device_info (sdb1 ''add''))),
             Sleep 2]\<rparr>"
  have ok: "mount_device env_ok (get_device_info (sdb1 ''add'')) s2 =
      (Returned (Some ''/mnt/casette/usb_sdb1''), snd (mount_device env_ok (get_device_info (sdb1 ''add'')) s2))"
    using mount_device_env_ok(1) [of "get_device_info (sdb1 ''add'')" s2]
    by (simp add: sdb1_add_facts prod_eq_iff)
  have no: "mount_device env_no_marker (get_device_info (sdb1 ''add'')) s2 =
      (Returned (Some ''/mnt/casette/usb_sdb1''),
       snd (mount_device env_no_marker (get_device_info (sdb1 ''add'')) s2))"
    using mount_device_env_ok(2) [of "get_device_info (sdb1 ''add'')" s2]
    by (simp add: sdb1_add_facts prod_eq_iff)
  have found: "os_path_exists_result env_ok h p" for h p
    by (simp add: env_ok_def)
  have missing: "\<not> os_path_exists_result env_no_marker h p" for h p
    by (simp add: env_no_marker_def env_ok_def)
  have thread: "thread_start_result env_ok h p = None" for h p
    by (simp add: env_ok_def)
  have which: "subprocess_run_result env_ok h [''which'', ''chromium''] None = Inr (completed 0 [])" for h
    by (simp add: env_ok_def)
  have popen: "subprocess_Popen_result env_ok h cmd = Inr 4242" for h cmd
    by (simp add: env_ok_def)
  note at_ok = handle_device_add_presents
    [OF sdb1_add_facts(1) ok [unfolded s2_def], of fresh, unfolded Let_def]
  note at_no_marker = handle_device_add_presents
    [OF sdb1_add_facts(1) no [unfolded s2_def], of fresh, unfolded Let_def]
  have started: "filter is_viewer_start
      (new_effects fresh (snd (handle_device_add env_ok (sdb1 ''add'') fresh))) =
     [Thread_start_launch_chromium (os_path_join ''/mnt/casette/usb_sdb1'' ''index.html'')]"
    using at_ok found thread by blast
  have none: "filter is_viewer_start
      (new_effects fresh (snd (handle_device_add env_no_marker (sdb1 ''add'') fresh))) = [] \<and>
     last (trace (snd (handle_device_add env_no_marker (sdb1 ''add'') fresh))) =
       Log INFO (''No index.html found in '' @ ''/mnt/casette/usb_sdb1'')"
    using at_no_marker missing by blast
  have launched: "fst (launch_chromium env_ok (os_path_join ''/mnt/casette/usb_sdb1'' ''index.html'') fresh) =
       Returned (Some 4242) \<and>
     filter is_viewer_start
       (new_effects fresh
          (snd (launch_chromium env_ok (os_path_join ''/mnt/casette/usb_sdb1'' ''index.html'') fresh))) =
       [Popen (kiosk_cmd (chromium_cmd (completed 0 []))
                 (os_path_join ''/mnt/casette/usb_sdb1'' ''index.html'')) DISPLAY]"
    using at_ok which popen by blast
  have mnt: "fst (mount_device env_ok (get_device_info (sdb1 ''add'')) s2) =
             Returned (Some ''/mnt/casette/usb_sdb1'')"
    using mount_device_env_ok(1) [of "get_device_info (sdb1 ''add'')" s2]
    by (simp add: sdb1_add_facts)
  from mnt [unfolded s2_def] started none launched sdb1_add_facts(1) show ?thesis
    by (simp add: sdb1_add_facts(5) kiosk_cmd_def chromium_cmd_def completed_def DISPLAY_def)
qed

text \<open>
  A marker file that is there does not always bring a viewer: the device is mounted,
  \<open>index.html\<close> exists and the thread is started, but \<open>which\<close> cannot be run; the
  launch logs the error, starts no viewer process and returns \<open>None\<close>.
\<close>

theorem viewer_not_launched_without_which:
  "is_usb_device (sdb1 ''add'') \<and>
   fst (mount_device env_no_which (get_device_info (sdb1 ''add''))
         (fresh\<lparr>trace := trace fresh @
            [Log INFO (''USB device inserted: '' @ repr_device_info (get_device_info (sdb1 ''add''))),
             Sleep 2]\<rparr>)) = Returned (Some ''/mnt/casette/usb_sdb1'') \<and>
   (\<forall>h. os_path_exists_result env_no_which h ''/mnt/casette/usb_sdb1/index.html'') \<and>
   filter is_viewer_start
     (new_effects fresh (snd (handle_device_add env_no_which (sdb1 ''add'') fresh))) =
     [Thread_start_launch_chromium ''/mnt/casette/usb_sdb1/index.html''] \<and>
   launch_chromium env_no_which ''/mnt/casette/usb_sdb1/index.html'' fresh =
     (Returned None,
      \<lparr> mounted_devices = [],
        trace = [Run [''pkill'', ''-f'', ''chromium''] None,
                 Log INFO ''Killed existing Chromium processes'',
                 Sleep 1,
                 Run [''which'', ''chromium''] None,
                 Log ERROR ''Error launching Chromium: No such file or directory''] \<rparr>)"
proof -
  define s2 where "s2 = fresh\<lparr>trace := trace fresh @
            [Log INFO (''USB device inserted: '' @ repr_device_info (get_device_info (sdb1 ''add''))),
             Sleep 2]\<rparr>"
  have mnt: "fst (mount_device env_no_which (get_device_info (sdb1 ''add'')) s2) =
             Returned (Some ''/mnt/casette/usb_sdb1'')"
    by (simp add: mount_device_def Let_def io_apply env_no_which_def env_ok_def completed_def
        sdb1_add_facts)
  then have m: "mount_device env_no_which (get_device_info (sdb1 ''add'')) s2 =
      (Returned (Some ''/mnt/casette/usb_sdb1''),
       snd (mount_device env_no_which (get_device_info (sdb1 ''add'')) s2))"
    by (simp add: prod_eq_iff)
  have found: "os_path_exists_result env_no_which h p" for h p
    by (simp add: env_no_which_def env_ok_def)
  note run = handle_device_add_mounted [OF sdb1_add_facts(1) m [unfolded s2_def]]
  obtain es where es: "trace (snd (mount_device env_no_which (get_device_info (sdb1 ''add'')) s2)) =
      trace fresh @ es" and nv: "filter is_viewer_start es = []"
    using run(3,4) unfolding s2_def by metis
  have started: "filter is_viewer_start
     (new_effects fresh (snd (handle_device_add env_no_which (sdb1 ''add'') fresh))) =
     [Thread_start_launch_chromium ''/mnt/casette/usb_sdb1/index.html'']"
    using nv found es [unfolded s2_def]
    by (simp add: run(1) new_effects_def sdb1_add_facts(5))
  have launch: "launch_chromium env_no_which ''/mnt/casette/usb_sdb1/index.html'' fresh =
     (Returned None,
      \<lparr> mounted_devices = [],
        trace = [Run [''pkill'', ''-f'', ''chromium''] None,
                 Log INFO ''Killed existing Chromium processes'',
                 Sleep 1,
                 Run [''which'', ''chromium''] None,
                 Log ERROR ''Error launching Chromium: No such file or directory''] \<rparr>)"
    by (simp add: launch_chromium_def kill_chromium_def io_apply Let_def env_no_which_def
        env_ok_def fresh_def completed_def)
  from sdb1_add_facts(1) mnt [unfolded s2_def] found started launch show ?thesis
    by simp
qed

subsection \<open>Mounting\<close>

lemma handle_device_add_not_mounted:
  assumes usb: "is_usb_device d"
    and failed: "fst (mount_device ev (get_device_info d)
         (s\<lparr>trace := trace s @
            [Log INFO (''USB device inserted: '' @ repr_device_info (get_device_info d)),
             Sleep 2]\<rparr>)) = Returned None"
  shows "handle_device_add ev d s =
          (Returned (), snd (mount_device ev (get_device_info d)
         (s\<lparr>trace := trace s @
            [Log INFO (''USB device inserted: '' @ repr_device_info (get_device_info d)),
             Sleep 2]\<rparr>)))"
    and "mounted_devices (snd (handle_device_add ev d s)) = mounted_devices s"
proof -
  define s2 where "s2 = s\<lparr>trace := trace s @
            [Log INFO (''USB device inserted: '' @ repr_device_info (get_device_info d)),
             Sleep 2]\<rparr>"
  obtain s3 where m: "mount_device ev (get_device_info d) s2 = (Returned None, s3)"
    using failed by (cases "mount_device ev (get_device_info d) s2") (simp add: s2_def)
  have md: "mounted_devices s3 = mounted_devices s"
    using mount_device_run [of ev "get_device_info d" s2] m by (simp add: s2_def)
  have run: "handle_device_add ev d s = (Returned (), s3)"
    unfolding handle_device_add_usb [OF usb] using m by (simp add: s2_def)
  show "handle_device_add ev d s =
          (Returned (), snd (mount_device ev (get_device_info d)
         (s\<lparr>trace := trace s @
            [Log INFO (''USB device inserted: '' @ repr_device_info (get_device_info d)),
             Sleep 2]\<rparr>)))"
    using run m by (simp add: s2_def)
  show "mounted_devices (snd (handle_device_add ev d s)) = mounted_devices s"
    using run md by simp
qed

lemma handle_device_add_records:
  assumes usb: "is_usb_device d"
    and mounted: "fst (mount_device ev (get_device_info d)
         (s\<lparr>trace := trace s @
            [Log INFO (''USB device inserted: '' @ repr_device_info (get_device_info d)),
             Sleep 2]\<rparr>)) = Returned (Some mp)"
  shows "mounted_devices (snd (handle_device_add ev d s)) =
           List.insert (name (get_device_info d)) (mounted_devices s)"
    and "fst (handle_device_add ev d s) = Returned () \<or>
         (\<exists>e. fst (handle_device_add ev d s) = Raised (Exception e) \<and>
              last (trace (snd (handle_device_add ev d s))) =
                Thread_start_launch_chromium (os_path_join mp ''index.html''))"
proof -
  define s2 where "s2 = s\<lparr>trace := trace s @
            [Log INFO (''USB device inserted: '' @ repr_device_info (get_device_info d)),
             Sleep 2]\<rparr>"
  obtain s3 where m: "mount_device ev (get_device_info d) s2 = (Returned (Some mp), s3)"
    using mounted by (cases "mount_device ev (get_device_info d) s2") (simp add: s2_def)
  note run = handle_device_add_mounted [OF usb m [unfolded s2_def]]
  show "mounted_devices (snd (handle_device_add ev d s)) =
           List.insert (name (get_device_info d)) (mounted_devices s)"
    by (simp add: run(1))
  show "fst (handle_device_add ev d s) = Returned () \<or>
         (\<exists>e. fst (handle_device_add ev d s) = Raised (Exception e) \<and>
              last (trace (snd (handle_device_add ev d s))) =
                Thread_start_launch_chromium (os_path_join mp ''index.html''))"
    by (simp add: run(1) run(5) split: option.splits)
qed

text \<open>
  Claim C7, as the code has it. With \<open>mp = os.path.join(MOUNT_BASE, label)\<close>,
  \<open>mount_device\<close> first asks for the directory tree \<open>mp\<close>
  (\<open>os.makedirs\<close> with \<open>exist_ok=True\<close>). If that raises, the error is logged and
  the result is \<open>None\<close>; otherwise the mount utility is run on the device node and
  \<open>mp\<close>. On exit status 0 the result is \<open>mp\<close> and the add handler then records
  the device node path; after that the handler returns, unless starting the viewer
  thread raises. On any other exit status the result is \<open>None\<close>, the same
  value for every failure: the diagnostic text of the utility goes into an error log
  record, not into the result, and the add handler leaves the tracked set as it was.
  For a label that does not begin with the separator, \<open>mp\<close> is
  \<open>MOUNT_BASE/label\<close> literally.
\<close>

theorem mount_device_outcomes:
  "let mp = os_path_join MOUNT_BASE (label info);
       cmd = [''sudo'', ''mount'', name info, mp]
   in (\<exists>rest. trace (snd (mount_device ev info s)) = trace s @ Makedirs mp # rest) \<and>
      (os_makedirs_result ev (trace s) mp = None \<longrightarrow>
         (\<exists>rest. trace (snd (mount_device ev info s)) =
            trace s @ Makedirs mp # Run cmd None # rest)) \<and>
      (\<forall>e. os_makedirs_result ev (trace s) mp = Some e \<longrightarrow>
         mount_device ev info s =
           (Returned None,
            s\<lparr>trace := trace s @
               [Makedirs mp,
                Log ERROR (''Error mounting device '' @ name info @ '': '' @ str e)]\<rparr>)) \<and>
      (\<forall>r. os_makedirs_result ev (trace s) mp = None \<and>
           subprocess_run_result ev (trace s @ [Makedirs mp]) cmd None = Inr r \<and>
           returncode r = 0 \<longrightarrow>
         mount_device ev info s =
           (Returned (Some mp),
            s\<lparr>trace := trace s @
               [Makedirs mp, Run cmd None,
                Log INFO (''Successfully mounted '' @ name info @ '' to '' @ mp)]\<rparr>)) \<and>
      (\<forall>r. os_makedirs_result ev (trace s) mp = None \<and>
           subprocess_run_result ev (trace s @ [Makedirs mp]) cmd None = Inr r \<and>
           returncode r \<noteq> 0 \<longrightarrow>
         mount_device ev info s =
           (Returned None,
            s\<lparr>trace := trace s @
               [Makedirs mp, Run cmd None,
                Log ERROR (''Failed to mount '' @ name info @ '': '' @ stderr r)]\<rparr>)) \<and>
      (\<forall>d s0. is_usb_device d \<and> get_device_info d = info \<and>
           s = s0\<lparr>trace := trace s0 @
                 [Log INFO (''USB device inserted: '' @ repr_device_info info), Sleep 2]\<rparr> \<longrightarrow>
         (fst (mount_device ev info s) = Returned (Some mp) \<longrightarrow>
            mounted_devices (snd (handle_device_add ev d s0)) =
              List.insert (name info) (mounted_devices s0) \<and>
            (fst (handle_device_add ev d s0) = Returned () \<or>
             (\<exists>e. fst (handle_device_add ev d s0) = Raised (Exception e) \<and>
                  last (trace (snd (handle_device_add ev d s0))) =
                    Thread_start_launch_chromium (os_path_join mp ''index.html'')))) \<and>
         (fst (mount_device ev info s) = Returned None \<longrightarrow>
            fst (handle_device_add ev d s0) = Returned () \<and>
            mounted_devices (snd (handle_device_add ev d s0)) = mounted_devices s0)) \<and>
      (\<not> (label info \<noteq> [] \<and> hd (label info) = CHR ''/'') \<longrightarrow>
         mp = MOUNT_BASE @ ''/'' @ label info)"
proof -
  let ?mp = "os_path_join MOUNT_BASE (label info)"
  let ?cmd = "[''sudo'', ''mount'', name info, ?mp]"
  have first: "\<exists>rest. trace (snd (mount_device ev info s)) = trace s @ Makedirs ?mp # rest"
    using mount_device_run [of ev info s] by blast
  have second: "\<exists>rest. trace (snd (mount_device ev info s)) =
            trace s @ Makedirs ?mp # Run ?cmd None # rest"
    if "os_makedirs_result ev (trace s) ?mp = None"
    using that
    by (cases "subprocess_run_result ev (trace s @ [Makedirs ?mp]) ?cmd None")
       (simp_all add: mount_device_run_raises mount_device_exit)
  have handler: "(fst (mount_device ev info s) = Returned (Some ?mp) \<longrightarrow>
            mounted_devices (snd (handle_device_add ev d s0)) =
              List.insert (name info) (mounted_devices s0) \<and>
            (fst (handle_device_add ev d s0) = Returned () \<or>
             (\<exists>e. fst (handle_device_add ev d s0) = Raised (Exception e) \<and>
                  last (trace (snd (handle_device_add ev d s0))) =
                    Thread_start_launch_chromium (os_path_join ?mp ''index.html'')))) \<and>
         (fst (mount_device ev info s) = Returned None \<longrightarrow>
            fst (handle_device_add ev d s0) = Returned () \<and>
            mounted_devices (snd (handle_device_add ev d s0)) = mounted_devices s0)"
    if "is_usb_device d \<and> get_device_info d = info \<and>
           s = s0\<lparr>trace := trace s0 @
                 [Log INFO (''USB device inserted: '' @ repr_device_info info), Sleep 2]\<rparr>"
    for d s0
    using that handle_device_add_records [of d ev s0 ?mp]
      handle_device_add_not_mounted [of d ev s0]
    by auto
  show ?thesis
    unfolding Let_def
    using first second handler
    by (simp add: mount_device_makedirs_raises mount_device_exit mount_point_relative)
qed


theorem mount_device_outcomes_witness:
  "os_makedirs_result env_ok [] ''/mnt/casette/usb_sdb1'' = None \<and>
   subprocess_run_result env_ok [Makedirs ''/mnt/casette/usb_sdb1'']
     [''sudo'', ''mount'', ''/dev/sdb1'', ''/mnt/casette/usb_sdb1''] None = Inr (completed 0 []) \<and>
   mount_device env_ok (get_device_info (sdb1 ''add'')) fresh =
     (Returned (Some ''/mnt/casette/usb_sdb1''),
      \<lparr> mounted_devices = [],
        trace = [Makedirs ''/mnt/casette/usb_sdb1'',
                 Run [''sudo'', ''mount'', ''/dev/sdb1'', ''/mnt/casette/usb_sdb1''] None,
                 Log INFO ''Successfully mounted /dev/sdb1 to /mnt/casette/usb_sdb1''] \<rparr>) \<and>
   subprocess_run_result env_busy [Makedirs ''/mnt/casette/usb_sdb1'']
     [''sudo'', ''mount'', ''/dev/sdb1'', ''/mnt/casette/usb_sdb1''] None =
     Inr (completed 32 ''target is busy'') \<and>
   mount_device env_busy (get_device_info (sdb1 ''add'')) fresh =
     (Returned None,
      \<lparr> mounted_devices = [],
        trace = [Makedirs ''/mnt/casette/usb_sdb1'',
                 Run [''sudo'', ''mount'', ''/dev/sdb1'', ''/mnt/casette/usb_sdb1''] None,
                 Log ERROR ''Failed to mount /dev/sdb1: target is busy''] \<rparr>) \<and>
   mounted_devices (snd (handle_device_add env_ok (sdb1 ''add'') fresh)) = [''/dev/sdb1''] \<and>
   mounted_devices (snd (handle_device_add env_busy (sdb1 ''add'') fresh)) = []"
proof -
  let ?info = "get_device_info (sdb1 ''add'')"
  define s2 where "s2 = fresh\<lparr>trace := trace fresh @
      [Log INFO (''USB device inserted: '' @ repr_device_info ?info), Sleep 2]\<rparr>"
  have mk: "os_makedirs_result env_ok [] ''/mnt/casette/usb_sdb1'' = None"
    "os_makedirs_result env_busy [] ''/mnt/casette/usb_sdb1'' = None"
    by (simp_all add: env_ok_def env_busy_def)
  have ok: "subprocess_run_result env_ok [Makedirs ''/mnt/casette/usb_sdb1'']
     [''sudo'', ''mount'', ''/dev/sdb1'', ''/mnt/casette/usb_sdb1''] None = Inr (completed 0 [])"
    by (simp add: env_ok_def)
  have busy: "subprocess_run_result env_busy [Makedirs ''/mnt/casette/usb_sdb1'']
     [''sudo'', ''mount'', ''/dev/sdb1'', ''/mnt/casette/usb_sdb1''] None =
     Inr (completed 32 ''target is busy'')"
    by (simp add: env_busy_def env_ok_def)
  have rc: "returncode (completed 0 []) = 0" "returncode (completed 32 ''target is busy'') \<noteq> 0"
    by (simp_all add: completed_def)
  note at_fresh_ok = mount_device_outcomes [of ?info env_ok fresh, unfolded Let_def sdb1_add_facts]
  note at_fresh_busy = mount_device_outcomes [of ?info env_busy fresh, unfolded Let_def sdb1_add_facts]
  have m_ok: "mount_device env_ok ?info fresh =
     (Returned (Some ''/mnt/casette/usb_sdb1''),
      fresh\<lparr>trace := trace fresh @ [Makedirs ''/mnt/casette/usb_sdb1'',
                 Run [''sudo'', ''mount'', ''/dev/sdb1'', ''/mnt/casette/usb_sdb1''] None,
                 Log INFO (''Successfully mounted '' @ ''/dev/sdb1'' @ '' to '' @
                           ''/mnt/casette/usb_sdb1'')]\<rparr>)"
    using at_fresh_ok mk(1) ok rc(1) by (simp add: fresh_def)
  have m_busy: "mount_device env_busy ?info fresh =
     (Returned None,
      fresh\<lparr>trace := trace fresh @ [Makedirs ''/mnt/casette/usb_sdb1'',
                 Run [''sudo'', ''mount'', ''/dev/sdb1'', ''/mnt/casette/usb_sdb1''] None,
                 Log ERROR (''Failed to mount '' @ ''/dev/sdb1'' @ '': '' @
                            stderr (completed 32 ''target is busy''))]\<rparr>)"
    using at_fresh_busy mk(2) busy rc(2) by (simp add: fresh_def)
  have f_ok: "fst (mount_device env_ok ?info s2) = Returned (Some ''/mnt/casette/usb_sdb1'')"
    using mount_device_env_ok(1) [of ?info s2] by (simp add: sdb1_add_facts)
  have f_busy: "fst (mount_device env_busy ?info s2) = Returned None"
    by (simp add: mount_device_def Let_def io_apply env_busy_def env_ok_def completed_def)
  have h_ok: "mounted_devices (snd (handle_device_add env_ok (sdb1 ''add'') fresh)) =
              List.insert ''/dev/sdb1'' (mounted_devices fresh)"
    using mount_device_outcomes [of ?info env_ok s2, unfolded Let_def sdb1_add_facts]
      sdb1_add_facts(1) f_ok
    by (simp add: s2_def)
  have h_busy: "mounted_devices (snd (handle_device_add env_busy (sdb1 ''add'') fresh)) =
              mounted_devices fresh"
    using mount_device_outcomes [of ?info env_busy s2, unfolded Let_def sdb1_add_facts]
      sdb1_add_facts(1) f_busy
    by (simp add: s2_def)
  from mk(1) ok busy m_ok m_busy h_ok h_busy show ?thesis
    by (simp add: fresh_def completed_def)
qed

text \<open>
  The result of a failed mount carries no diagnostic text: the utility fails with two
  different texts in two environments, and \<open>mount_device\<close> returns \<open>None\<close> in
  both; the text is in the log record only.
\<close>

theorem mount_failure_returns_none:
  "subprocess_run_result env_busy [Makedirs ''/mnt/casette/usb_sdb1'']
     [''sudo'', ''mount'', ''/dev/sdb1'', ''/mnt/casette/usb_sdb1''] None =
     Inr (completed 32 ''target is busy'') \<and>
   subprocess_run_result env_wrong_fs [Makedirs ''/mnt/casette/usb_sdb1'']
     [''sudo'', ''mount'', ''/dev/sdb1'', ''/mnt/casette/usb_sdb1''] None =
     Inr (completed 32 ''wrong fs type'') \<and>
   fst (mount_device env_busy (get_device_info (sdb1 ''add'')) fresh) = Returned None \<and>
   fst (mount_device env_wrong_fs (get_device_info (sdb1 ''add'')) fresh) = Returned None \<and>
   trace (snd (mount_device env_busy (get_device_info (sdb1 ''add'')) fresh)) =
     [Makedirs ''/mnt/casette/usb_sdb1'',
      Run [''sudo'', ''mount'', ''/dev/sdb1'', ''/mnt/casette/usb_sdb1''] None,
      Log ERROR ''Failed to mount /dev/sdb1: target is busy'']"
  by (simp add: mount_device_def Let_def io_apply example_defs sdb1_add_facts
      get_device_info_def device_get_def os_path_join_def MOUNT_BASE_def)

subsection \<open>Errors while handling an event\<close>

lemma unreadable_is_skipped:
  "walk d = Inl e \<Longrightarrow> handle_udev_event ev d s = (Returned (), s)"
  by (simp add: handle_udev_event_def handle_device_add_def handle_device_remove_def
      is_usb_device_def return_def)

text \<open>
  Claim C4. The functions the handler calls catch their own errors: a classification
  error makes the event a no-op (\<open>unreadable_is_skipped\<close>, without a log record), a
  mount error is logged and gives \<open>None\<close> (\<open>mount_device_makedirs_raises\<close>,
  \<open>mount_device_run_raises\<close>), the launch logs its errors
  (\<open>launch_chromium_exact\<close>). But the observer never reaches them. It calls the
  handler it was given with two arguments, the action and the device; the bound method
  takes the device alone, so the call raises \<open>TypeError\<close> before any statement of the
  handler runs. That holds for every event, every state and every environment: the
  exception is caught nowhere, the observer's loop ends at the first event with no
  effect, no later event is handled, and the main thread goes on.
\<close>

theorem observer_stops_at_first_event:
  "call_handle_udev_event ev [Action_arg (action d), Device_arg d] s =
     (Raised (Exception (TypeError
        ''handle_udev_event() takes 2 positional arguments but 3 were given'')), s) \<and>
   dispatch ev (d # ds) s =
     (Raised (Exception (TypeError
        ''handle_udev_event() takes 2 positional arguments but 3 were given'')), s) \<and>
   observer_thread (dispatch ev (d # ds)) s = (Returned (), s)"
  by (simp add: call_handle_udev_event_def raise_def bind_def observer_thread_def)

text \<open>
  Two insertions are delivered and everything outside succeeds: the loop ends at the
  first, nothing is mounted and nothing is logged. Called with the device alone, the
  same handler would have mounted and recorded \<open>/dev/sdb1\<close>; and when the viewer
  thread cannot be started, the \<open>RuntimeError\<close> leaves that handler, since the start
  is outside every \<open>try\<close>.
\<close>

theorem observer_stops_at_first_event_witness:
  "dispatch env_ok [sdb1 ''add'', labelled ''add''] fresh =
     (Raised (Exception (TypeError
        ''handle_udev_event() takes 2 positional arguments but 3 were given'')),
      \<lparr> mounted_devices = [], trace = [] \<rparr>) \<and>
   observer_thread (dispatch env_ok [sdb1 ''add'', labelled ''add'']) fresh = (Returned (), fresh) \<and>
   mounted_devices (snd (handle_udev_event env_ok (sdb1 ''add'') fresh)) = [''/dev/sdb1''] \<and>
   fst (handle_udev_event env_no_thread (sdb1 ''add'') fresh) =
     Raised (Exception (RuntimeError ''cannot start new thread''))"
proof -
  note at_sdb1 = observer_stops_at_first_event [of env_ok "sdb1 ''add''" fresh "[labelled ''add'']"]
  have stopped: "dispatch env_ok [sdb1 ''add'', labelled ''add''] fresh =
     (Raised (Exception (TypeError
        ''handle_udev_event() takes 2 positional arguments but 3 were given'')), fresh)"
    using at_sdb1 by blast
  have main_thread: "observer_thread (dispatch env_ok [sdb1 ''add'', labelled ''add'']) fresh =
     (Returned (), fresh)"
    using at_sdb1 by blast
  define s2 where "s2 = fresh\<lparr>trace := trace fresh @
            [Log INFO (''USB device inserted: '' @ repr_device_info (get_device_info (sdb1 ''add''))),
             Sleep 2]\<rparr>"
  have add: "action (sdb1 ''add'') = Some ''add''"
    by (simp add: example_defs)
  have "mounted_devices (snd (handle_device_add env_ok (sdb1 ''add'') fresh)) =
        List.insert (name (get_device_info (sdb1 ''add''))) (mounted_devices fresh)"
    using handle_device_add_records(1) [OF sdb1_add_facts(1), of env_ok fresh]
      mount_device_env_ok(1) [of "get_device_info (sdb1 ''add'')" s2]
    by (simp add: s2_def)
  then have direct: "mounted_devices (snd (handle_udev_event env_ok (sdb1 ''add'') fresh)) =
                     [''/dev/sdb1'']"
    by (simp add: handle_udev_event_def add sdb1_add_facts fresh_def)
  have mnt: "mount_device env_no_thread (get_device_info (sdb1 ''add'')) s2 =
      (Returned (Some ''/mnt/casette/usb_sdb1''),
       snd (mount_device env_no_thread (get_device_info (sdb1 ''add'')) s2))"
    by (simp add: mount_device_def Let_def io_apply env_no_thread_def env_ok_def completed_def
        sdb1_add_facts)
  have "fst (handle_device_add env_no_thread (sdb1 ''add'') fresh) =
        Raised (Exception (RuntimeError ''cannot start new thread''))"
    using handle_device_add_mounted(5) [OF sdb1_add_facts(1) mnt [unfolded s2_def]]
    by (simp add: env_no_thread_def env_ok_def)
  then have thread: "fst (handle_udev_event env_no_thread (sdb1 ''add'') fresh) =
     Raised (Exception (RuntimeError ''cannot start new thread''))"
    by (simp add: handle_udev_event_def add)
  from stopped main_thread direct thread show ?thesis
    by (simp add: fresh_def)
qed

subsection \<open>Start-up and the exit status\<close>

lemma sleep_until_interrupt_run:
  "sleep_until_interrupt n s =
     (Raised KeyboardInterrupt, s\<lparr>trace := trace s @ replicate n (Sleep 1)\<rparr>)"
  by (induction n arbitrary: s)
     (simp_all add: raise_def bind_def time_sleep_def emit_def replicate_append_same)

lemma start_monitoring_outcome:
  "fst (start_monitoring ev events interrupt s) = Returned () \<or>
   (fst (start_monitoring ev events interrupt s) = Blocked \<and> interrupt = None)"
  by (cases interrupt)
     (auto simp: start_monitoring_def keep_alive_def observer_thread_def cleanup_run
        sleep_until_interrupt_run io_apply split: option.splits)

lemma USBMonitor_init_outcome:
  "USBMonitor_init ev s =
     (case pyudev_result ev (trace s) Context of
        Some e \<Rightarrow> (Raised (Exception e), s\<lparr>trace := trace s @ [Pyudev Context]\<rparr>)
      | None \<Rightarrow>
     (case pyudev_result ev (trace s @ [Pyudev Context]) Monitor_from_netlink of
        Some e \<Rightarrow> (Raised (Exception e),
                     s\<lparr>trace := trace s @ [Pyudev Context, Pyudev Monitor_from_netlink]\<rparr>)
      | None \<Rightarrow>
     (case pyudev_result ev (trace s @ [Pyudev Context, Pyudev Monitor_from_netlink])
             (Monitor_filter_by ''block'' ''partition'') of
        Some e \<Rightarrow> (Raised (Exception e),
                     s\<lparr>trace := trace s @ [Pyudev Context, Pyudev Monitor_from_netlink,
                                           Pyudev (Monitor_filter_by ''block'' ''partition'')]\<rparr>)
      | None \<Rightarrow>
     (case os_makedirs_result ev
             (trace s @ [Pyudev Context, Pyudev Monitor_from_netlink,
                         Pyudev (Monitor_filter_by ''block'' ''partition'')]) MOUNT_BASE of
        Some e \<Rightarrow> (Raised (Exception e),
                     s\<lparr>mounted_devices := [],
                       trace := trace s @ [Pyudev Context, Pyudev Monitor_from_netlink,
                                           Pyudev (Monitor_filter_by ''block'' ''partition''),
                                           Makedirs MOUNT_BASE]\<rparr>)
      | None \<Rightarrow> (Returned (),
                  s\<lparr>mounted_devices := [],
                    trace := trace s @ [Pyudev Context, Pyudev Monitor_from_netlink,
                                        Pyudev (Monitor_filter_by ''block'' ''partition''),
                                        Makedirs MOUNT_BASE]\<rparr>)))))"
  by (simp add: USBMonitor_init_def io_apply split: option.splits)

lemma main_after_init:
  "main ev events interrupt s =
     (case USBMonitor_init ev
             (s\<lparr>trace := trace s @ [Log INFO ''Starting Casette USB Monitor Service'']\<rparr>) of
        (Returned u, s2) \<Rightarrow> start_monitoring ev events interrupt s2
      | (Raised (Exception e), s2) \<Rightarrow>
          (Raised (SystemExit 1), s2\<lparr>trace := trace s2 @ [Log ERROR (''Fatal error: '' @ str e)]\<rparr>)
      | (Raised r, s2) \<Rightarrow> (Raised r, s2)
      | (Blocked, s2) \<Rightarrow> (Blocked, s2))"
proof -
  define s1 where "s1 = s\<lparr>trace := trace s @ [Log INFO ''Starting Casette USB Monitor Service'']\<rparr>"
  show ?thesis
  proof (cases "USBMonitor_init ev s1")
    case (Pair out s2)
    show ?thesis
    proof (cases out)
      case (Returned u)
      have "fst (start_monitoring ev events interrupt s2) = Returned () \<or>
            fst (start_monitoring ev events interrupt s2) = Blocked"
        using start_monitoring_outcome [of ev events interrupt s2] by blast
      then show ?thesis
        using Pair Returned
        by (cases "start_monitoring ev events interrupt s2")
           (auto simp: main_def io_apply s1_def)
    next
      case (Raised r)
      then show ?thesis
        using Pair by (cases r) (auto simp: main_def io_apply s1_def)
    next
      case Blocked
      then show ?thesis
        using Pair by (auto simp: main_def io_apply s1_def)
    qed
  qed
qed


lemma USBMonitor_init_returns_or_raises:
  "fst (USBMonitor_init ev s) = Returned () \<or>
   (\<exists>e. fst (USBMonitor_init ev s) = Raised (Exception e))"
  by (simp add: USBMonitor_init_outcome split: option.splits)

lemma start_monitoring_observer_fails:
  assumes "pyudev_result ev (trace s @ [Log INFO ''Starting USB device monitoring...''])
             MonitorObserver = Some e \<or>
           (pyudev_result ev (trace s @ [Log INFO ''Starting USB device monitoring...''])
              MonitorObserver = None \<and>
            pyudev_result ev
              (trace s @ [Log INFO ''Starting USB device monitoring...'', Pyudev MonitorObserver])
              Observer_start = Some e)"
  shows "fst (start_monitoring ev events interrupt s) = Returned ()"
    and "Log ERROR (''Error in USB monitor: '' @ str e)
           \<in> set (trace (snd (start_monitoring ev events interrupt s)))"
    and "Log INFO ''Cleaning up mounted devices...''
           \<in> set (trace (snd (start_monitoring ev events interrupt s)))"
  using assms
  by (auto simp: start_monitoring_def cleanup_run io_apply)

text \<open>
  Claim C1, as the code has it. \<open>main\<close> exits with status 1, after the log record
  \<open>Fatal error: ...\<close>, exactly when constructing the monitor raises: opening the udev
  context, opening the netlink monitor or setting its filter (the hotplug subscription),
  and also creating the mount base directory. When the constructor returns, the process
  ends with status 0 or is still in its keep-alive loop, whatever the events and the
  environment: an exception when the observer is created or started is logged and
  followed by the cleanup and a normal return, and nothing that happens while an event
  is handled reaches the exit status.
\<close>

theorem main_exit_status:
  "let s1 = s\<lparr>trace := trace s @ [Log INFO ''Starting Casette USB Monitor Service'']\<rparr>;
       h1 = trace s1 @ [Pyudev Context];
       h2 = h1 @ [Pyudev Monitor_from_netlink];
       h3 = h2 @ [Pyudev (Monitor_filter_by ''block'' ''partition'')]
   in (\<forall>e. pyudev_result ev (trace s1) Context = Some e \<longrightarrow>
         fst (USBMonitor_init ev s1) = Raised (Exception e)) \<and>
      (\<forall>e. pyudev_result ev (trace s1) Context = None \<and>
           pyudev_result ev h1 Monitor_from_netlink = Some e \<longrightarrow>
         fst (USBMonitor_init ev s1) = Raised (Exception e)) \<and>
      (\<forall>e. pyudev_result ev (trace s1) Context = None \<and>
           pyudev_result ev h1 Monitor_from_netlink = None \<and>
           pyudev_result ev h2 (Monitor_filter_by ''block'' ''partition'') = Some e \<longrightarrow>
         fst (USBMonitor_init ev s1) = Raised (Exception e)) \<and>
      (\<forall>e. pyudev_result ev (trace s1) Context = None \<and>
           pyudev_result ev h1 Monitor_from_netlink = None \<and>
           pyudev_result ev h2 (Monitor_filter_by ''block'' ''partition'') = None \<and>
           os_makedirs_result ev h3 MOUNT_BASE = Some e \<longrightarrow>
         fst (USBMonitor_init ev s1) = Raised (Exception e)) \<and>
      (pyudev_result ev (trace s1) Context = None \<and>
       pyudev_result ev h1 Monitor_from_netlink = None \<and>
       pyudev_result ev h2 (Monitor_filter_by ''block'' ''partition'') = None \<and>
       os_makedirs_result ev h3 MOUNT_BASE = None \<longrightarrow>
         fst (USBMonitor_init ev s1) = Returned ()) \<and>
      (\<forall>e. fst (USBMonitor_init ev s1) = Raised (Exception e) \<longrightarrow>
         main ev events interrupt s =
           (Raised (SystemExit 1),
            (snd (USBMonitor_init ev s1))
              \<lparr>trace := trace (snd (USBMonitor_init ev s1)) @
                 [Log ERROR (''Fatal error: '' @ str e)]\<rparr>)) \<and>
      (fst (USBMonitor_init ev s1) = Returned () \<longrightarrow>
         fst (main ev events interrupt s) = Returned () \<or>
         (fst (main ev events interrupt s) = Blocked \<and> interrupt = None)) \<and>
      ((exit_status (fst (main ev events interrupt s)) = Some 1) =
         (\<exists>e. fst (USBMonitor_init ev s1) = Raised (Exception e))) \<and>
      (exit_status (fst (main ev events interrupt s)) = Some 1 \<or>
       exit_status (fst (main ev events interrupt s)) = Some 0 \<or>
       exit_status (fst (main ev events interrupt s)) = None) \<and>
      (\<forall>s2 e. USBMonitor_init ev s1 = (Returned (), s2) \<and>
           (pyudev_result ev (trace s2 @ [Log INFO ''Starting USB device monitoring...''])
              MonitorObserver = Some e \<or>
            (pyudev_result ev (trace s2 @ [Log INFO ''Starting USB device monitoring...''])
               MonitorObserver = None \<and>
             pyudev_result ev
               (trace s2 @ [Log INFO ''Starting USB device monitoring...'', Pyudev MonitorObserver])
               Observer_start = Some e)) \<longrightarrow>
         fst (main ev events interrupt s) = Returned () \<and>
         Log ERROR (''Error in USB monitor: '' @ str e)
           \<in> set (trace (snd (main ev events interrupt s))) \<and>
         Log INFO ''Cleaning up mounted devices...''
           \<in> set (trace (snd (main ev events interrupt s))))"
proof -
  define s1 where "s1 = s\<lparr>trace := trace s @ [Log INFO ''Starting Casette USB Monitor Service'']\<rparr>"
  have fatal: "main ev events interrupt s =
           (Raised (SystemExit 1),
            (snd (USBMonitor_init ev s1))
              \<lparr>trace := trace (snd (USBMonitor_init ev s1)) @
                 [Log ERROR (''Fatal error: '' @ str e)]\<rparr>)"
    if "fst (USBMonitor_init ev s1) = Raised (Exception e)" for e
    using that unfolding main_after_init s1_def [symmetric]
    by (cases "USBMonitor_init ev s1") simp
  have started: "fst (main ev events interrupt s) = Returned () \<or>
         (fst (main ev events interrupt s) = Blocked \<and> interrupt = None)"
    if ok: "fst (USBMonitor_init ev s1) = Returned ()"
  proof -
    obtain s2 where "USBMonitor_init ev s1 = (Returned (), s2)"
      using ok by (cases "USBMonitor_init ev s1") auto
    then have "main ev events interrupt s = start_monitoring ev events interrupt s2"
      unfolding main_after_init s1_def [symmetric] by simp
    then show ?thesis
      using start_monitoring_outcome [of ev events interrupt s2] by simp
  qed
  have status: "(exit_status (fst (main ev events interrupt s)) = Some 1) =
         (\<exists>e. fst (USBMonitor_init ev s1) = Raised (Exception e))"
    using USBMonitor_init_returns_or_raises [of ev s1] fatal started by auto
  have three: "exit_status (fst (main ev events interrupt s)) = Some 1 \<or>
       exit_status (fst (main ev events interrupt s)) = Some 0 \<or>
       exit_status (fst (main ev events interrupt s)) = None"
    using USBMonitor_init_returns_or_raises [of ev s1] fatal started by auto
  have init: "(\<forall>e. pyudev_result ev (trace s1) Context = Some e \<longrightarrow>
         fst (USBMonitor_init ev s1) = Raised (Exception e)) \<and>
      (\<forall>e. pyudev_result ev (trace s1) Context = None \<and>
           pyudev_result ev (trace s1 @ [Pyudev Context]) Monitor_from_netlink = Some e \<longrightarrow>
         fst (USBMonitor_init ev s1) = Raised (Exception e)) \<and>
      (\<forall>e. pyudev_result ev (trace s1) Context = None \<and>
           pyudev_result ev (trace s1 @ [Pyudev Context]) Monitor_from_netlink = None \<and>
           pyudev_result ev ((trace s1 @ [Pyudev Context]) @ [Pyudev Monitor_from_netlink])
             (Monitor_filter_by ''block'' ''partition'') = Some e \<longrightarrow>
         fst (USBMonitor_init ev s1) = Raised (Exception e)) \<and>
      (\<forall>e. pyudev_result ev (trace s1) Context = None \<and>
           pyudev_result ev (trace s1 @ [Pyudev Context]) Monitor_from_netlink = None \<and>
           pyudev_result ev ((trace s1 @ [Pyudev Context]) @ [Pyudev Monitor_from_netlink])
             (Monitor_filter_by ''block'' ''partition'') = None \<and>
           os_makedirs_result ev
             (((trace s1 @ [Pyudev Context]) @ [Pyudev Monitor_from_netlink]) @
                [Pyudev (Monitor_filter_by ''block'' ''partition'')]) MOUNT_BASE = Some e \<longrightarrow>
         fst (USBMonitor_init ev s1) = Raised (Exception e)) \<and>
      (pyudev_result ev (trace s1) Context = None \<and>
       pyudev_result ev (trace s1 @ [Pyudev Context]) Monitor_from_netlink = None \<and>
       pyudev_result ev ((trace s1 @ [Pyudev Context]) @ [Pyudev Monitor_from_netlink])
             (Monitor_filter_by ''block'' ''partition'') = None \<and>
       os_makedirs_result ev
             (((trace s1 @ [Pyudev Context]) @ [Pyudev Monitor_from_netlink]) @
                [Pyudev (Monitor_filter_by ''block'' ''partition'')]) MOUNT_BASE = None \<longrightarrow>
         fst (USBMonitor_init ev s1) = Returned ())"
    by (simp add: USBMonitor_init_outcome)
  have observer: "fst (main ev events interrupt s) = Returned () \<and>
         Log ERROR (''Error in USB monitor: '' @ str e)
           \<in> set (trace (snd (main ev events interrupt s))) \<and>
         Log INFO ''Cleaning up mounted devices...''
           \<in> set (trace (snd (main ev events interrupt s)))"
    if init_ok: "USBMonitor_init ev s1 = (Returned (), s2)"
      and fails: "pyudev_result ev (trace s2 @ [Log INFO ''Starting USB device monitoring...''])
              MonitorObserver = Some e \<or>
            (pyudev_result ev (trace s2 @ [Log INFO ''Starting USB device monitoring...''])
               MonitorObserver = None \<and>
             pyudev_result ev
               (trace s2 @ [Log INFO ''Starting USB device monitoring...'', Pyudev MonitorObserver])
               Observer_start = Some e)"
    for s2 e
  proof -
    have "main ev events interrupt s = start_monitoring ev events interrupt s2"
      unfolding main_after_init s1_def [symmetric] using init_ok by simp
    then show ?thesis
      using start_monitoring_observer_fails [OF fails, of events interrupt] by simp
  qed
  have observer_all: "\<forall>s2 e. USBMonitor_init ev s1 = (Returned (), s2) \<and>
           (pyudev_result ev (trace s2 @ [Log INFO ''Starting USB device monitoring...''])
              MonitorObserver = Some e \<or>
            (pyudev_result ev (trace s2 @ [Log INFO ''Starting USB device monitoring...''])
               MonitorObserver = None \<and>
             pyudev_result ev
               (trace s2 @ [Log INFO ''Starting USB device monitoring...'', Pyudev MonitorObserver])
               Observer_start = Some e)) \<longrightarrow>
         fst (main ev events interrupt s) = Returned () \<and>
         Log ERROR (''Error in USB monitor: '' @ str e)
           \<in> set (trace (snd (main ev events interrupt s))) \<and>
         Log INFO ''Cleaning up mounted devices...''
           \<in> set (trace (snd (main ev events interrupt s)))"
    using observer by blast
  have exits: "(\<forall>e. fst (USBMonitor_init ev s1) = Raised (Exception e) \<longrightarrow>
         main ev events interrupt s =
           (Raised (SystemExit 1),
            (snd (USBMonitor_init ev s1))
              \<lparr>trace := trace (snd (USBMonitor_init ev s1)) @
                 [Log ERROR (''Fatal error: '' @ str e)]\<rparr>)) \<and>
      (fst (USBMonitor_init ev s1) = Returned () \<longrightarrow>
         fst (main ev events interrupt s) = Returned () \<or>
         (fst (main ev events interrupt s) = Blocked \<and> interrupt = None)) \<and>
      ((exit_status (fst (main ev events interrupt s)) = Some 1) =
         (\<exists>e. fst (USBMonitor_init ev s1) = Raised (Exception e))) \<and>
      (exit_status (fst (main ev events interrupt s)) = Some 1 \<or>
       exit_status (fst (main ev events interrupt s)) = Some 0 \<or>
       exit_status (fst (main ev events interrupt s)) = None)"
    using fatal started status three by simp
  show ?thesis
    unfolding Let_def s1_def [symmetric]
    by (intro conjI init [THEN conjunct1] init [THEN conjunct2, THEN conjunct1]
        init [THEN conjunct2, THEN conjunct2, THEN conjunct1]
        init [THEN conjunct2, THEN conjunct2, THEN conjunct2, THEN conjunct1]
        init [THEN conjunct2, THEN conjunct2, THEN conjunct2, THEN conjunct2]
        exits [THEN conjunct1] exits [THEN conjunct2, THEN conjunct1]
        exits [THEN conjunct2, THEN conjunct2, THEN conjunct1]
        exits [THEN conjunct2, THEN conjunct2, THEN conjunct2]
        observer_all)
qed


theorem main_exit_status_witness:
  "pyudev_result env_no_netlink [Log INFO ''Starting Casette USB Monitor Service''] Context = None \<and>
   pyudev_result env_no_netlink
     [Log INFO ''Starting Casette USB Monitor Service'', Pyudev Context] Monitor_from_netlink =
     Some (OSError ''Could not create monitor'') \<and>
   main env_no_netlink [] (Some 0) fresh =
     (Raised (SystemExit 1),
      \<lparr> mounted_devices = [],
        trace = [Log INFO ''Starting Casette USB Monitor Service'',
                 Pyudev Context, Pyudev Monitor_from_netlink,
                 Log ERROR ''Fatal error: Could not create monitor''] \<rparr>) \<and>
   exit_status (fst (main env_no_netlink [] (Some 0) fresh)) = Some 1 \<and>
   exit_status (fst (main env_ok [sdb1 ''add''] (Some 1) fresh)) = Some 0"
proof -
  define s1 where "s1 = fresh\<lparr>trace := trace fresh @ [Log INFO ''Starting Casette USB Monitor Service'']\<rparr>"
  have ctx: "pyudev_result env_no_netlink (trace s1) Context = None"
    by (simp add: env_no_netlink_def env_ok_def)
  have nl: "pyudev_result env_no_netlink (trace s1 @ [Pyudev Context]) Monitor_from_netlink =
            Some (OSError ''Could not create monitor'')"
    by (simp add: env_no_netlink_def env_ok_def)
  note at_no_netlink =
    main_exit_status [of fresh env_no_netlink "[]" "Some 0", unfolded Let_def, folded s1_def]
  have raised: "fst (USBMonitor_init env_no_netlink s1) =
                Raised (Exception (OSError ''Could not create monitor''))"
    using at_no_netlink ctx nl by blast
  have state: "snd (USBMonitor_init env_no_netlink s1) =
     \<lparr> mounted_devices = [],
       trace = [Log INFO ''Starting Casette USB Monitor Service'',
                Pyudev Context, Pyudev Monitor_from_netlink] \<rparr>"
    using ctx nl by (simp add: USBMonitor_init_outcome s1_def fresh_def)
  have fatal: "main env_no_netlink [] (Some 0) fresh =
     (Raised (SystemExit 1),
      (snd (USBMonitor_init env_no_netlink s1))
        \<lparr>trace := trace (snd (USBMonitor_init env_no_netlink s1)) @
           [Log ERROR (''Fatal error: '' @ str (OSError ''Could not create monitor''))]\<rparr>)"
    using at_no_netlink raised by blast
  have status: "exit_status (fst (main env_no_netlink [] (Some 0) fresh)) = Some 1"
    using at_no_netlink raised by blast
  define t1 where "t1 = fresh\<lparr>trace := trace fresh @ [Log INFO ''Starting Casette USB Monitor Service'']\<rparr>"
  note at_ok =
    main_exit_status [of fresh env_ok "[sdb1 ''add'']" "Some 1", unfolded Let_def, folded t1_def]
  have init_ok: "fst (USBMonitor_init env_ok t1) = Returned ()"
    using at_ok by (simp add: env_ok_def)
  then have "fst (main env_ok [sdb1 ''add''] (Some 1) fresh) = Returned ()"
    using at_ok by blast
  then have ok: "exit_status (fst (main env_ok [sdb1 ''add''] (Some 1) fresh)) = Some 0"
    by simp
  have fatal_run: "main env_no_netlink [] (Some 0) fresh =
     (Raised (SystemExit 1),
      \<lparr> mounted_devices = [],
        trace = [Log INFO ''Starting Casette USB Monitor Service'',
                 Pyudev Context, Pyudev Monitor_from_netlink,
                 Log ERROR ''Fatal error: Could not create monitor''] \<rparr>)"
    using fatal by (simp add: state)
  from ctx nl fatal_run status ok show ?thesis
    by (simp add: s1_def fresh_def)
qed

text \<open>
  A failure that is not a subscription failure ends the process with status 1: every
  pyudev call succeeds, \<open>os.makedirs(MOUNT_BASE)\<close> raises, and \<open>main\<close> logs the
  fatal error and exits with status 1.
\<close>

theorem mount_base_failure_is_fatal:
  "(\<forall>h c. pyudev_result env_no_mount_base h c = None) \<and>
   main env_no_mount_base [] (Some 0) fresh =
     (Raised (SystemExit 1),
      \<lparr> mounted_devices = [],
        trace = [Log INFO ''Starting Casette USB Monitor Service'',
                 Pyudev Context, Pyudev Monitor_from_netlink,
                 Pyudev (Monitor_filter_by ''block'' ''partition''),
                 Makedirs ''/mnt/casette'',
                 Log ERROR ''Fatal error: Permission denied''] \<rparr>) \<and>
   exit_status (fst (main env_no_mount_base [] (Some 0) fresh)) = Some 1"
  by (simp add: main_after_init USBMonitor_init_outcome env_no_mount_base_def env_ok_def
      fresh_def MOUNT_BASE_def)

end
